theory Spec2Isabelle
  imports Main "HOL-Library.Word" "HOL-Library.Signed_Division" "HOL-Library.Sublist"
begin

section \<open>Device handlers of the metadata service (core/metadata/rest_device.go)\<close>

text \<open>
  The handlers of \<^verbatim>\<open>rest_device.go\<close> are embedded as functions that pass the outside
  world explicitly. The registry (\<^verbatim>\<open>dbClient\<close>), the configuration, the clock and the
  associate notifier are declared in other packages; they are parameters of the model
  (the record \<open>env\<close>), so every theorem holds for any registry implementation.
  The world is the registry's store plus the sequence of calls the handler has made to
  its collaborators, in call order. The HTTP response writer is a value that each handler
  returns updated. Response headers are not represented.
\<close>

subsection \<open>Errors\<close>

text \<open>
  A Go \<^verbatim>\<open>error\<close>. The handlers compare errors with two sentinel values only
  (\<^verbatim>\<open>mgo.ErrNotFound\<close> and \<^verbatim>\<open>db.ErrNotUnique\<close>) and otherwise read the message
  (\<^verbatim>\<open>err.Error()\<close>).
\<close>

datatype errorKind = ErrNotFound | ErrNotUnique | ErrOther

datatype error = MkError (sentinel: errorKind) (Error: string)

definition errors_New :: "string \<Rightarrow> error" where
  "errors_New m = MkError ErrOther m"

subsection \<open>Data model (package models, fields used by the handlers)\<close>

text \<open>
  Modelled from the spec: the records of package models (section 3 of the specification),
  which are declared outside \<^verbatim>\<open>rest_device.go\<close>. Each record has the fields the handlers
  read or write: the identifier and the name of a referenced record, and one further
  attribute that stands for the rest of it. A nil slice or interface value is \<open>None\<close>.
  \<^verbatim>\<open>bson.ObjectId\<close> is kept in its hexadecimal form (\<^verbatim>\<open>Id.Hex()\<close>).
\<close>

type_synonym int64 = "64 word"

type_synonym ObjectId = string

record addressable =
  Addressable_Id :: ObjectId
  Addressable_Name :: string
  Addressable_Address :: string

text \<open>\<^verbatim>\<open>DeviceService\<close> embeds \<^verbatim>\<open>Service\<close>: \<^verbatim>\<open>ds.Service.Id\<close> is \<open>Service_Id ds\<close>.\<close>

record deviceService =
  Service_Id :: ObjectId
  Service_Name :: string
  Service_AdminState :: string

record deviceProfile =
  Profile_Id :: ObjectId
  Profile_Name :: string
  Profile_Manufacturer :: string

record device =
  Device_Id :: ObjectId
  Device_Name :: string
  AdminState :: string
  OperatingState :: string
  Addressable :: addressable
  LastConnected :: int64
  LastReported :: int64
  Labels :: "string list option"
  Location :: "string option"
  Service :: deviceService
  Profile :: deviceProfile
  Description :: string
  Origin :: int64

record deviceReport =
  Report_Id :: ObjectId
  Report_Name :: string
  Report_Device :: string

text \<open>Go zero values: \<^verbatim>\<open>models.Addressable{}\<close> and so on.\<close>

definition zero_Addressable :: addressable where
  "zero_Addressable = \<lparr>Addressable_Id = [], Addressable_Name = [], Addressable_Address = []\<rparr>"

definition zero_DeviceService :: deviceService where
  "zero_DeviceService = \<lparr>Service_Id = [], Service_Name = [], Service_AdminState = []\<rparr>"

definition zero_DeviceProfile :: deviceProfile where
  "zero_DeviceProfile = \<lparr>Profile_Id = [], Profile_Name = [], Profile_Manufacturer = []\<rparr>"

definition zero_Device :: device where
  "zero_Device = \<lparr>Device_Id = [], Device_Name = [], AdminState = [], OperatingState = [],
     Addressable = zero_Addressable, LastConnected = 0, LastReported = 0, Labels = None,
     Location = None, Service = zero_DeviceService, Profile = zero_DeviceProfile,
     Description = [], Origin = 0\<rparr>"

datatype ActionType = PROFILE | DEVICE | ADDRESSABLE | SCHEDULE | SCHEDULEEVENT | SERVICE
  | PROVISIONWATCHER | REPORT

text \<open>
  Modelled from the spec: \<^verbatim>\<open>models.GetOperatingState\<close> is declared in package models;
  the operating states are ENABLED and DISABLED, and the second component tells whether
  the string is one of them.
\<close>

definition GetOperatingState :: "string \<Rightarrow> string \<times> bool" where
  "GetOperatingState os =
     (if os = ''ENABLED'' then (''ENABLED'', True)
      else if os = ''DISABLED'' then (''DISABLED'', True)
      else ([], False))"

subsection \<open>Notifications (package notifications-client)\<close>

text \<open>
  Modelled from the spec: the notification record of the notification sink (sections 4.5
  and 6), with the fields \<^verbatim>\<open>postNotification\<close> sets.
\<close>

datatype category = SECURITY | HW_HEALTH | SW_HEALTH

datatype severity = CRITICAL | NORMAL

record notification =
  Slug :: string
  Content :: string
  Category :: category
  Notification_Description :: string
  Notification_Labels :: "string list"
  Sender :: string
  Severity :: severity

subsection \<open>HTTP response writer\<close>

text \<open>
  \<open>statusCode\<close> is \<open>None\<close> until the header is written. As in \<^verbatim>\<open>net/http\<close>, the first
  \<^verbatim>\<open>WriteHeader\<close> wins and a \<^verbatim>\<open>Write\<close> before any \<^verbatim>\<open>WriteHeader\<close> sends status 200.
  \<^verbatim>\<open>http.Error\<close> writes the header and then the message followed by a newline.
\<close>

record response =
  statusCode :: "nat option"
  written :: string

definition emptyResponse :: response where
  "emptyResponse = \<lparr>statusCode = None, written = []\<rparr>"

definition WriteHeader :: "response \<Rightarrow> nat \<Rightarrow> response" where
  "WriteHeader w code = (if statusCode w = None then w\<lparr>statusCode := Some code\<rparr> else w)"

definition Write :: "response \<Rightarrow> string \<Rightarrow> response" where
  "Write w b = (let w' = WriteHeader w 200 in w'\<lparr>written := written w' @ b\<rparr>)"

definition http_Error :: "response \<Rightarrow> string \<Rightarrow> nat \<Rightarrow> response" where
  "http_Error w msg code = Write (WriteHeader w code) (msg @ [CHR 0x0A])"

definition StatusOK :: nat where "StatusOK = 200"
definition StatusNotFound :: nat where "StatusNotFound = 404"
definition StatusConflict :: nat where "StatusConflict = 409"
definition StatusServiceUnavailable :: nat where "StatusServiceUnavailable = 503"

definition MethodPost :: string where "MethodPost = ''POST''"
definition MethodPut :: string where "MethodPut = ''PUT''"
definition MethodDelete :: string where "MethodDelete = ''DELETE''"

subsection \<open>Calls to collaborators\<close>

text \<open>One event per call a handler makes to the registry, the logger or a notifier.\<close>

datatype event =
    EvGetAddressableById string
  | EvGetAddressableByName string
  | EvGetDeviceServiceById string
  | EvGetDeviceServiceByName string
  | EvGetDeviceProfileById string
  | EvGetDeviceProfileByName string
  | EvGetDeviceById string
  | EvGetDeviceByName string
  | EvGetDeviceReportByDeviceName string
  | EvAddDevice device
  | EvUpdateDevice device
  | EvDeleteDevice device
  | EvDeleteDeviceReport deviceReport
  | EvSendNotification notification
  | EvNotifyAssociates "deviceService list" string string ActionType
  | EvNotifyDeviceReportAssociates deviceReport string
  | EvLogError string

fun isRegistryWrite :: "event \<Rightarrow> bool" where
  "isRegistryWrite (EvAddDevice d) = True"
| "isRegistryWrite (EvUpdateDevice d) = True"
| "isRegistryWrite (EvDeleteDevice d) = True"
| "isRegistryWrite (EvDeleteDeviceReport r) = True"
| "isRegistryWrite e = False"

fun isUpdateDevice :: "event \<Rightarrow> bool" where
  "isUpdateDevice (EvUpdateDevice d) = True"
| "isUpdateDevice e = False"

fun isDeleteDevice :: "event \<Rightarrow> bool" where
  "isDeleteDevice (EvDeleteDevice d) = True"
| "isDeleteDevice e = False"

fun isReportEvent :: "event \<Rightarrow> bool" where
  "isReportEvent (EvDeleteDeviceReport r) = True"
| "isReportEvent (EvNotifyDeviceReportAssociates r a) = True"
| "isReportEvent e = False"

subsection \<open>The registry facade and the environment\<close>

text \<open>
  The interface behind \<^verbatim>\<open>dbClient\<close> (package db). A lookup reads the store and returns
  the record or an error; on an error the destination of the lookup keeps its value.
  A write returns its error (if any) and the store it leaves behind.
  \<^verbatim>\<open>AddDevice\<close> also returns the device, which it completes with its new identifier.
\<close>

record 's dbClient =
  GetAddressableById :: "'s \<Rightarrow> string \<Rightarrow> error + addressable"
  GetAddressableByName :: "'s \<Rightarrow> string \<Rightarrow> error + addressable"
  GetDeviceServiceById :: "'s \<Rightarrow> string \<Rightarrow> error + deviceService"
  GetDeviceServiceByName :: "'s \<Rightarrow> string \<Rightarrow> error + deviceService"
  GetDeviceProfileById :: "'s \<Rightarrow> string \<Rightarrow> error + deviceProfile"
  GetDeviceProfileByName :: "'s \<Rightarrow> string \<Rightarrow> error + deviceProfile"
  GetDeviceById :: "'s \<Rightarrow> string \<Rightarrow> error + device"
  GetDeviceByName :: "'s \<Rightarrow> string \<Rightarrow> error + device"
  GetDeviceReportByDeviceName :: "'s \<Rightarrow> string \<Rightarrow> error + deviceReport list"
  AddDevice :: "'s \<Rightarrow> device \<Rightarrow> error option \<times> device \<times> 's"
  UpdateDevice :: "'s \<Rightarrow> device \<Rightarrow> error option \<times> 's"
  DeleteDevice :: "'s \<Rightarrow> device \<Rightarrow> error option \<times> 's"
  DeleteDeviceReport :: "'s \<Rightarrow> deviceReport \<Rightarrow> error option \<times> 's"

text \<open>
  Modelled from the spec: the process-wide configuration (section 9), with the fields
  \<^verbatim>\<open>postNotification\<close> reads.
\<close>

record configurationStruct =
  NotificationPostDeviceChanges :: bool
  NotificationsSlug :: string
  NotificationContent :: string
  NotificationDescription :: string
  NotificationLabel :: string
  NotificationSender :: string

text \<open>
  \<open>notifyAssociates\<close> (declared in another file of the package) calls the owning
  services back; the environment gives its outcome. \<open>time_Now_UnixNano\<close> is the clock
  reading after the calls made so far. \<open>DeviceService_String\<close> and \<open>DeviceProfile_String\<close>
  are the \<^verbatim>\<open>String()\<close> methods of package models.
\<close>

record 's env =
  dbClient :: "'s dbClient"
  configuration :: configurationStruct
  notifyAssociates :: "'s \<Rightarrow> deviceService list \<Rightarrow> string \<Rightarrow> string \<Rightarrow> ActionType \<Rightarrow> error option"
  time_Now_UnixNano :: "event list \<Rightarrow> int64"
  DeviceService_String :: "deviceService \<Rightarrow> string"
  DeviceProfile_String :: "deviceProfile \<Rightarrow> string"

record 's world =
  store :: 's
  trace :: "event list"

definition emit :: "event \<Rightarrow> 's world \<Rightarrow> 's world" where
  "emit e wd = wd\<lparr>trace := trace wd @ [e]\<rparr>"

definition loggingClient_Error :: "string \<Rightarrow> 's world \<Rightarrow> 's world" where
  "loggingClient_Error m wd = emit (EvLogError m) wd"

text \<open>A registry write: the call is recorded and the store replaced by the one it left.\<close>

definition wrote :: "event \<Rightarrow> 's \<Rightarrow> 's world \<Rightarrow> 's world" where
  "wrote e s' wd = (emit e wd)\<lparr>store := s'\<rparr>"

subsection \<open>postNotification and notifyDeviceAssociates (lines 1194-1231)\<close>

fun digits10 :: "nat \<Rightarrow> string" where
  "digits10 n =
     (if n < 10 then [char_of (48 + n)]
      else digits10 (n div 10) @ [char_of (48 + n mod 10)])"

text \<open>\<^verbatim>\<open>strconv.FormatInt(i, 10)\<close>.\<close>

definition FormatInt :: "int64 \<Rightarrow> string" where
  "FormatInt i =
     (if sint i < 0 then CHR ''-'' # digits10 (nat (- sint i)) else digits10 (nat (sint i)))"

definition Millisecond :: int64 where
  "Millisecond = 1000000"

text \<open>Go's \<^verbatim>\<open>/\<close> on \<^verbatim>\<open>int64\<close>: the quotient is truncated toward zero and wraps to 64 bits.\<close>

definition int64_div :: "int64 \<Rightarrow> int64 \<Rightarrow> int64" where
  "int64_div a b = word_of_int (sint a sdiv sint b)"

definition postNotification :: "'s env \<Rightarrow> string \<Rightarrow> string \<Rightarrow> 's world \<Rightarrow> 's world" where
  "postNotification env name action wd =
     (if NotificationPostDeviceChanges (configuration env) then
        emit (EvSendNotification
          \<lparr>Slug = NotificationsSlug (configuration env) @
                  FormatInt (int64_div (time_Now_UnixNano env (trace wd)) Millisecond),
           Content = NotificationContent (configuration env) @ name @ ''-'' @ action,
           Category = SW_HEALTH,
           Notification_Description = NotificationDescription (configuration env),
           Notification_Labels = [NotificationLabel (configuration env)],
           Sender = NotificationSender (configuration env),
           Severity = NORMAL\<rparr>) wd
      else wd)"

definition notifyDeviceAssociates ::
  "'s env \<Rightarrow> device \<Rightarrow> string \<Rightarrow> 's world \<Rightarrow> error option \<times> 's world" where
  "notifyDeviceAssociates env d action wd =
     (let wd1 = postNotification env (Device_Name d) action wd;
          wd2 = emit (EvGetDeviceServiceById (Service_Id (Service d))) wd1
      in case GetDeviceServiceById (dbClient env) (store wd1) (Service_Id (Service d)) of
           Inl err \<Rightarrow> (Some err, loggingClient_Error (Error err) wd2)
         | Inr ds \<Rightarrow>
             (let services = [] @ [ds];
                  wd3 = emit (EvNotifyAssociates services (Device_Id d) action DEVICE) wd2
              in case notifyAssociates env (store wd2) services (Device_Id d) action DEVICE of
                   Some err \<Rightarrow> (Some err, loggingClient_Error (Error err) wd3)
                 | None \<Rightarrow> (None, wd3)))"

subsection \<open>restAddNewDevice (lines 58-133)\<close>

text \<open>
  Each check either ends the request (\<open>Inl\<close>: the response and the world at the return)
  or continues with the device completed by the record found (\<open>Inr\<close>).
  Lines 69-80: the Addressable is looked up by name, then by id.
\<close>

definition restAddNewDevice_addressableCheck ::
  "'s env \<Rightarrow> device \<Rightarrow> response \<Rightarrow> 's world \<Rightarrow> (response \<times> 's world) + (device \<times> 's world)" where
  "restAddNewDevice_addressableCheck env d w wd =
     (let wd1 = emit (EvGetAddressableByName (Addressable_Name (Addressable d))) wd
      in case GetAddressableByName (dbClient env) (store wd) (Addressable_Name (Addressable d)) of
           Inr a \<Rightarrow> Inr (d\<lparr>Addressable := a\<rparr>, wd1)
         | Inl _ \<Rightarrow>
             (let wd2 = emit (EvGetAddressableById (Addressable_Id (Addressable d))) wd1
              in case GetAddressableById (dbClient env) (store wd1) (Addressable_Id (Addressable d)) of
                   Inr a \<Rightarrow> Inr (d\<lparr>Addressable := a\<rparr>, wd2)
                 | Inl err \<Rightarrow>
                     Inl (http_Error w (Error err @ '': A device must be associated to an Addressable'')
                            StatusConflict,
                          loggingClient_Error (Error err) wd2)))"

text \<open>Lines 82-93: the device service, by name, then by id.\<close>

definition restAddNewDevice_serviceCheck ::
  "'s env \<Rightarrow> device \<Rightarrow> response \<Rightarrow> 's world \<Rightarrow> (response \<times> 's world) + (device \<times> 's world)" where
  "restAddNewDevice_serviceCheck env d w wd =
     (let wd1 = emit (EvGetDeviceServiceByName (Service_Name (Service d))) wd
      in case GetDeviceServiceByName (dbClient env) (store wd) (Service_Name (Service d)) of
           Inr ds \<Rightarrow> Inr (d\<lparr>Service := ds\<rparr>, wd1)
         | Inl _ \<Rightarrow>
             (let wd2 = emit (EvGetDeviceServiceById (Service_Id (Service d))) wd1
              in case GetDeviceServiceById (dbClient env) (store wd1) (Service_Id (Service d)) of
                   Inr ds \<Rightarrow> Inr (d\<lparr>Service := ds\<rparr>, wd2)
                 | Inl err \<Rightarrow>
                     Inl (http_Error w
                            (Error err @ '': A device must be associated with a device service'')
                            StatusConflict,
                          loggingClient_Error (Error err) wd2)))"

text \<open>Lines 95-106: the device profile, by name, then by id.\<close>

definition restAddNewDevice_profileCheck ::
  "'s env \<Rightarrow> device \<Rightarrow> response \<Rightarrow> 's world \<Rightarrow> (response \<times> 's world) + (device \<times> 's world)" where
  "restAddNewDevice_profileCheck env d w wd =
     (let wd1 = emit (EvGetDeviceProfileByName (Profile_Name (Profile d))) wd
      in case GetDeviceProfileByName (dbClient env) (store wd) (Profile_Name (Profile d)) of
           Inr dp \<Rightarrow> Inr (d\<lparr>Profile := dp\<rparr>, wd1)
         | Inl _ \<Rightarrow>
             (let wd2 = emit (EvGetDeviceProfileById (Profile_Id (Profile d))) wd1
              in case GetDeviceProfileById (dbClient env) (store wd1) (Profile_Id (Profile d)) of
                   Inr dp \<Rightarrow> Inr (d\<lparr>Profile := dp\<rparr>, wd2)
                 | Inl err \<Rightarrow>
                     Inl (http_Error w
                            (Error err @ '': A device must be associated with a device profile'')
                            StatusConflict,
                          loggingClient_Error (Error err) wd2)))"

text \<open>
  Lines 108-133: the state check, the registry's add, the notification and the answer.
  The result of \<^verbatim>\<open>notifyDeviceAssociates\<close> is dropped (line 129).
\<close>

definition restAddNewDevice_add ::
  "'s env \<Rightarrow> device \<Rightarrow> response \<Rightarrow> 's world \<Rightarrow> response \<times> 's world" where
  "restAddNewDevice_add env d w wd =
     (if OperatingState d = [] \<or> AdminState d = [] then
        (let err = errors_New ''Device can't have null operating state or admin state''
         in (http_Error w (Error err) StatusConflict, loggingClient_Error (Error err) wd))
      else
        (case AddDevice (dbClient env) (store wd) d of
           (Some err, d', s') \<Rightarrow>
             ((if sentinel err = ErrNotUnique
               then http_Error w ''Duplicate name for device'' StatusConflict
               else http_Error w (Error err) StatusServiceUnavailable),
              loggingClient_Error (Error err) (wrote (EvAddDevice d) s' wd))
         | (None, d', s') \<Rightarrow>
             (let (_, wd') = notifyDeviceAssociates env d' MethodPost (wrote (EvAddDevice d) s' wd)
              in (Write (WriteHeader w StatusOK) (Device_Id d'), wd'))))"

text \<open>The handler; \<open>body\<close> is the outcome of decoding the request body (lines 61-67).\<close>

definition restAddNewDevice ::
  "'s env \<Rightarrow> error + device \<Rightarrow> response \<Rightarrow> 's world \<Rightarrow> response \<times> 's world" where
  "restAddNewDevice env body w wd =
     (case body of
        Inl err \<Rightarrow> (http_Error w (Error err) StatusServiceUnavailable,
                    loggingClient_Error (Error err) wd)
      | Inr d \<Rightarrow>
          (case restAddNewDevice_addressableCheck env d w wd of
             Inl r \<Rightarrow> r
           | Inr (d1, wd1) \<Rightarrow>
               (case restAddNewDevice_serviceCheck env d1 w wd1 of
                  Inl r \<Rightarrow> r
                | Inr (d2, wd2) \<Rightarrow>
                    (case restAddNewDevice_profileCheck env d2 w wd2 of
                       Inl r \<Rightarrow> r
                     | Inr (d3, wd3) \<Rightarrow> restAddNewDevice_add env d3 w wd3))))"

subsection \<open>updateDeviceFields (lines 181-278)\<close>

text \<open>
  \<^verbatim>\<open>to\<close> is a pointer in the source: each block returns the record as it stands when the
  block ends, also when it ends with an error. Lines 183-197: the Addressable.
\<close>

definition updateDeviceFields_addressable ::
  "'s env \<Rightarrow> device \<Rightarrow> device \<Rightarrow> 's world \<Rightarrow> error option \<times> device \<times> 's world" where
  "updateDeviceFields_addressable env from to wd =
     (if Addressable from \<noteq> zero_Addressable then
        (let wd1 = emit (EvGetAddressableById (Addressable_Id (Addressable from))) wd
         in case GetAddressableById (dbClient env) (store wd) (Addressable_Id (Addressable from)) of
              Inr a \<Rightarrow> (None, to\<lparr>Addressable := a\<rparr>, wd1)
            | Inl _ \<Rightarrow>
                (let wd2 = emit (EvGetAddressableByName (Addressable_Name (Addressable from))) wd1
                 in case GetAddressableByName (dbClient env) (store wd1)
                           (Addressable_Name (Addressable from)) of
                      Inr a \<Rightarrow> (None, to\<lparr>Addressable := a\<rparr>, wd2)
                    | Inl _ \<Rightarrow>
                        (Some (errors_New ''Addressable not found for updated device''), to, wd2)))
      else (None, to, wd))"

text \<open>Lines 198-212: the device service.\<close>

definition updateDeviceFields_service ::
  "'s env \<Rightarrow> device \<Rightarrow> device \<Rightarrow> 's world \<Rightarrow> error option \<times> device \<times> 's world" where
  "updateDeviceFields_service env from to wd =
     (if DeviceService_String env (Service from) \<noteq> DeviceService_String env zero_DeviceService then
        (let wd1 = emit (EvGetDeviceServiceById (Service_Id (Service from))) wd
         in case GetDeviceServiceById (dbClient env) (store wd) (Service_Id (Service from)) of
              Inr ds \<Rightarrow> (None, to\<lparr>Service := ds\<rparr>, wd1)
            | Inl _ \<Rightarrow>
                (let wd2 = emit (EvGetDeviceServiceByName (Service_Name (Service from))) wd1
                 in case GetDeviceServiceByName (dbClient env) (store wd1)
                           (Service_Name (Service from)) of
                      Inr ds \<Rightarrow> (None, to\<lparr>Service := ds\<rparr>, wd2)
                    | Inl _ \<Rightarrow>
                        (Some (errors_New ''Device service not found for updated device''), to, wd2)))
      else (None, to, wd))"

text \<open>Lines 213-227: the device profile.\<close>

definition updateDeviceFields_profile ::
  "'s env \<Rightarrow> device \<Rightarrow> device \<Rightarrow> 's world \<Rightarrow> error option \<times> device \<times> 's world" where
  "updateDeviceFields_profile env from to wd =
     (if DeviceProfile_String env (Profile from) \<noteq> DeviceProfile_String env zero_DeviceProfile then
        (let wd1 = emit (EvGetDeviceProfileById (Profile_Id (Profile from))) wd
         in case GetDeviceProfileById (dbClient env) (store wd) (Profile_Id (Profile from)) of
              Inr dp \<Rightarrow> (None, to\<lparr>Profile := dp\<rparr>, wd1)
            | Inl _ \<Rightarrow>
                (let wd2 = emit (EvGetDeviceProfileByName (Profile_Name (Profile from))) wd1
                 in case GetDeviceProfileByName (dbClient env) (store wd1)
                           (Profile_Name (Profile from)) of
                      Inr dp \<Rightarrow> (None, to\<lparr>Profile := dp\<rparr>, wd2)
                    | Inl _ \<Rightarrow>
                        (Some (errors_New ''Device profile not found for updated device''), to, wd2)))
      else (None, to, wd))"

text \<open>Lines 228-251: the attributes, each overwritten when the patch's value is not zero.\<close>

definition updateDeviceFields_attributes :: "device \<Rightarrow> device \<Rightarrow> device" where
  "updateDeviceFields_attributes from to =
     (let to1 = (if AdminState from \<noteq> [] then to\<lparr>AdminState := AdminState from\<rparr> else to);
          to2 = (if Description from \<noteq> [] then to1\<lparr>Description := Description from\<rparr> else to1);
          to3 = (if Labels from \<noteq> None then to2\<lparr>Labels := Labels from\<rparr> else to2);
          to4 = (if LastConnected from \<noteq> 0 then to3\<lparr>LastConnected := LastConnected from\<rparr> else to3);
          to5 = (if LastReported from \<noteq> 0 then to4\<lparr>LastReported := LastReported from\<rparr> else to4);
          to6 = (if Location from \<noteq> None then to5\<lparr>Location := Location from\<rparr> else to5);
          to7 = (if OperatingState from \<noteq> []
                 then to6\<lparr>OperatingState := OperatingState from\<rparr> else to6);
          to8 = (if Origin from \<noteq> 0 then to7\<lparr>Origin := Origin from\<rparr> else to7)
      in to8)"

text \<open>Lines 252-277: the name and its uniqueness check.\<close>

definition updateDeviceFields_name ::
  "'s env \<Rightarrow> device \<Rightarrow> device \<Rightarrow> 's world \<Rightarrow> error option \<times> device \<times> 's world" where
  "updateDeviceFields_name env from to wd =
     (if Device_Name from \<noteq> [] then
        (let to' = to\<lparr>Device_Name := Device_Name from\<rparr>;
             wd1 = emit (EvGetDeviceByName (Device_Name from)) wd
         in case GetDeviceByName (dbClient env) (store wd) (Device_Name from) of
              Inl err \<Rightarrow>
                (if sentinel err \<noteq> ErrNotFound
                 then (Some err, to', loggingClient_Error (Error err) wd1)
                 else (None, to', wd1))
            | Inr checkD \<Rightarrow>
                (if Device_Id checkD \<noteq> Device_Id to' then
                   (let err = errors_New ''Duplicate name for Device''
                    in (Some err, to', loggingClient_Error (Error err) wd1))
                 else (None, to', wd1)))
      else (None, to, wd))"

text \<open>Lines 183-227: the three references, in the order Addressable, Service, Profile.\<close>

definition updateDeviceFields_references ::
  "'s env \<Rightarrow> device \<Rightarrow> device \<Rightarrow> 's world \<Rightarrow> error option \<times> device \<times> 's world" where
  "updateDeviceFields_references env from to wd =
     (case updateDeviceFields_addressable env from to wd of
        (Some err, to1, wd1) \<Rightarrow> (Some err, to1, wd1)
      | (None, to1, wd1) \<Rightarrow>
          (case updateDeviceFields_service env from to1 wd1 of
             (Some err, to2, wd2) \<Rightarrow> (Some err, to2, wd2)
           | (None, to2, wd2) \<Rightarrow> updateDeviceFields_profile env from to2 wd2))"

definition updateDeviceFields ::
  "'s env \<Rightarrow> device \<Rightarrow> device \<Rightarrow> 's world \<Rightarrow> error option \<times> device \<times> 's world" where
  "updateDeviceFields env from to wd =
     (case updateDeviceFields_references env from to wd of
        (Some err, to3, wd3) \<Rightarrow> (Some err, to3, wd3)
      | (None, to3, wd3) \<Rightarrow>
          updateDeviceFields_name env from (updateDeviceFields_attributes from to3) wd3)"

subsection \<open>restUpdateDevice (lines 135-179)\<close>

text \<open>
  Lines 162-179: merge, persist, notify, answer. The result of
  \<^verbatim>\<open>notifyDeviceAssociates\<close> is dropped (line 175).
\<close>

definition restUpdateDevice_merge ::
  "'s env \<Rightarrow> device \<Rightarrow> device \<Rightarrow> response \<Rightarrow> 's world \<Rightarrow> response \<times> 's world" where
  "restUpdateDevice_merge env rd oldDevice w wd =
     (case updateDeviceFields env rd oldDevice wd of
        (Some err, oldDevice', wd1) \<Rightarrow>
          (http_Error w (Error err) StatusServiceUnavailable, loggingClient_Error (Error err) wd1)
      | (None, oldDevice', wd1) \<Rightarrow>
          (case UpdateDevice (dbClient env) (store wd1) oldDevice' of
             (Some err, s') \<Rightarrow>
               (http_Error w (Error err) StatusServiceUnavailable,
                loggingClient_Error (Error err) (wrote (EvUpdateDevice oldDevice') s' wd1))
           | (None, s') \<Rightarrow>
               (let (_, wd2) = notifyDeviceAssociates env oldDevice' MethodPut
                                 (wrote (EvUpdateDevice oldDevice') s' wd1)
                in (Write (WriteHeader w StatusOK) ''true'', wd2))))"

text \<open>The handler: the body is decoded, then the device is looked up by id, then by name.\<close>

definition restUpdateDevice ::
  "'s env \<Rightarrow> error + device \<Rightarrow> response \<Rightarrow> 's world \<Rightarrow> response \<times> 's world" where
  "restUpdateDevice env body w wd =
     (case body of
        Inl err \<Rightarrow> (http_Error w (Error err) StatusServiceUnavailable,
                    loggingClient_Error (Error err) wd)
      | Inr rd \<Rightarrow>
          (let wd1 = emit (EvGetDeviceById (Device_Id rd)) wd
           in case GetDeviceById (dbClient env) (store wd) (Device_Id rd) of
                Inr oldDevice \<Rightarrow> restUpdateDevice_merge env rd oldDevice w wd1
              | Inl _ \<Rightarrow>
                  (let wd2 = emit (EvGetDeviceByName (Device_Name rd)) wd1
                   in case GetDeviceByName (dbClient env) (store wd1) (Device_Name rd) of
                        Inr oldDevice \<Rightarrow> restUpdateDevice_merge env rd oldDevice w wd2
                      | Inl err \<Rightarrow>
                          (http_Error w (Error err) StatusNotFound,
                           loggingClient_Error (Error err) wd2))))"

subsection \<open>Setting the operating state (lines 551-639)\<close>

text \<open>The message of lines 557 and 607.\<close>

definition invalidStateMessage :: "string \<Rightarrow> string" where
  "invalidStateMessage os =
     ''Invalid State: '' @ os @ '' Must be '' @ [CHR 0x27] @ ''ENABLED'' @ [CHR 0x27] @
     '' or '' @ [CHR 0x27] @ ''DISABLED'' @ [CHR 0x27]"

text \<open>
  \<^verbatim>\<open>restSetDeviceOpStateById\<close>. After the registry's update, line 578 returns when the
  update failed, and line 581 tests the same error again.
\<close>

definition restSetDeviceOpStateById ::
  "'s env \<Rightarrow> string \<Rightarrow> string \<Rightarrow> response \<Rightarrow> 's world \<Rightarrow> response \<times> 's world" where
  "restSetDeviceOpStateById env did os w wd =
     (case GetOperatingState os of
        (newOs, f) \<Rightarrow>
          if \<not> f then
            (let err = errors_New (invalidStateMessage os)
             in (http_Error w (Error err) StatusServiceUnavailable,
                 loggingClient_Error (Error err) wd))
          else
            (let wd1 = emit (EvGetDeviceById did) wd
             in case GetDeviceById (dbClient env) (store wd) did of
                  Inl err \<Rightarrow>
                    ((if sentinel err = ErrNotFound
                      then http_Error w (Error err) StatusNotFound
                      else http_Error w (Error err) StatusServiceUnavailable),
                     loggingClient_Error (Error err) wd1)
                | Inr d0 \<Rightarrow>
                    (let d = d0\<lparr>OperatingState := newOs\<rparr>
                     in case UpdateDevice (dbClient env) (store wd1) d of
                          (err, s') \<Rightarrow>
                            (let wd2 = wrote (EvUpdateDevice d) s' wd1
                             in case err of
                                  Some e \<Rightarrow> (w, wd2)
                                | None \<Rightarrow>
                                    (case err of
                                       Some e \<Rightarrow>
                                         (http_Error w (Error e) StatusServiceUnavailable,
                                          loggingClient_Error (Error e) wd2)
                                     | None \<Rightarrow>
                                         (let (_, wd3) = notifyDeviceAssociates env d MethodPut wd2
                                          in (Write (WriteHeader w StatusOK) ''true'', wd3)))))))"

text \<open>
  \<^verbatim>\<open>restSetDeviceOpStateByName\<close>; \<open>n\<close> is the outcome of unescaping the name
  (lines 597-602).
\<close>

definition restSetDeviceOpStateByName ::
  "'s env \<Rightarrow> error + string \<Rightarrow> string \<Rightarrow> response \<Rightarrow> 's world \<Rightarrow> response \<times> 's world" where
  "restSetDeviceOpStateByName env n os w wd =
     (case n of
        Inl err \<Rightarrow> (http_Error w (Error err) StatusServiceUnavailable,
                    loggingClient_Error (Error err) wd)
      | Inr name \<Rightarrow>
          (case GetOperatingState os of
             (newOs, f) \<Rightarrow>
               if \<not> f then
                 (let err = errors_New (invalidStateMessage os)
                  in (http_Error w (Error err) StatusServiceUnavailable,
                      loggingClient_Error (Error err) wd))
               else
                 (let wd1 = emit (EvGetDeviceByName name) wd
                  in case GetDeviceByName (dbClient env) (store wd) name of
                       Inl err \<Rightarrow>
                         ((if sentinel err = ErrNotFound
                           then http_Error w (Error err) StatusNotFound
                           else http_Error w (Error err) StatusServiceUnavailable),
                          loggingClient_Error (Error err) wd1)
                     | Inr d0 \<Rightarrow>
                         (let d = d0\<lparr>OperatingState := newOs\<rparr>
                          in case UpdateDevice (dbClient env) (store wd1) d of
                               (Some err, s') \<Rightarrow>
                                 (http_Error w (Error err) StatusServiceUnavailable,
                                  loggingClient_Error (Error err) (wrote (EvUpdateDevice d) s' wd1))
                             | (None, s') \<Rightarrow>
                                 (let (_, wd3) = notifyDeviceAssociates env d MethodPut
                                                   (wrote (EvUpdateDevice d) s' wd1)
                                  in (Write (WriteHeader w StatusOK) ''true'', wd3))))))"

subsection \<open>Deleting a device (lines 735-828)\<close>

text \<open>
  Modelled from the spec: \<^verbatim>\<open>notifyDeviceReportAssociates\<close> is declared in another file
  of the package; it dispatches a notification for the report with the action. Its result
  is dropped by its caller (line 824), so the dispatch is recorded as one call.
\<close>

definition notifyDeviceReportAssociates :: "deviceReport \<Rightarrow> string \<Rightarrow> 's world \<Rightarrow> 's world" where
  "notifyDeviceReportAssociates report action wd =
     emit (EvNotifyDeviceReportAssociates report action) wd"

text \<open>The loop of lines 818-825 over the reports.\<close>

fun deleteReports ::
  "'s env \<Rightarrow> deviceReport list \<Rightarrow> response \<Rightarrow> 's world \<Rightarrow> error option \<times> response \<times> 's world" where
  "deleteReports env [] w wd = (None, w, wd)"
| "deleteReports env (report # reports) w wd =
     (case DeleteDeviceReport (dbClient env) (store wd) report of
        (Some err, s') \<Rightarrow>
          (Some err, http_Error w (Error err) StatusServiceUnavailable,
           loggingClient_Error (Error err) (wrote (EvDeleteDeviceReport report) s' wd))
      | (None, s') \<Rightarrow>
          deleteReports env reports w
            (notifyDeviceReportAssociates report MethodDelete
               (wrote (EvDeleteDeviceReport report) s' wd)))"

definition deleteAssociatedReportsForDevice ::
  "'s env \<Rightarrow> device \<Rightarrow> response \<Rightarrow> 's world \<Rightarrow> error option \<times> response \<times> 's world" where
  "deleteAssociatedReportsForDevice env d w wd =
     (let wd1 = emit (EvGetDeviceReportByDeviceName (Device_Name d)) wd
      in case GetDeviceReportByDeviceName (dbClient env) (store wd) (Device_Name d) of
           Inl err \<Rightarrow>
             (Some err, http_Error w (Error err) StatusServiceUnavailable,
              loggingClient_Error (Error err) wd1)
         | Inr reports \<Rightarrow> deleteReports env reports w wd1)"

definition deleteDevice ::
  "'s env \<Rightarrow> device \<Rightarrow> response \<Rightarrow> 's world \<Rightarrow> error option \<times> response \<times> 's world" where
  "deleteDevice env d w wd =
     (case deleteAssociatedReportsForDevice env d w wd of
        (Some err, w1, wd1) \<Rightarrow> (Some err, http_Error w1 (Error err) StatusServiceUnavailable, wd1)
      | (None, w1, wd1) \<Rightarrow>
          (case DeleteDevice (dbClient env) (store wd1) d of
             (Some err, s') \<Rightarrow>
               (Some err, http_Error w1 (Error err) StatusServiceUnavailable,
                wrote (EvDeleteDevice d) s' wd1)
           | (None, s') \<Rightarrow>
               (case notifyDeviceAssociates env d MethodDelete (wrote (EvDeleteDevice d) s' wd1) of
                  (Some err, wd2) \<Rightarrow>
                    (Some err, http_Error w1 (Error err) StatusServiceUnavailable, wd2)
                | (None, wd2) \<Rightarrow> (None, w1, wd2))))"

definition restDeleteDeviceById ::
  "'s env \<Rightarrow> string \<Rightarrow> response \<Rightarrow> 's world \<Rightarrow> response \<times> 's world" where
  "restDeleteDeviceById env did w wd =
     (let wd1 = emit (EvGetDeviceById did) wd
      in case GetDeviceById (dbClient env) (store wd) did of
           Inl err \<Rightarrow>
             ((if sentinel err = ErrNotFound
               then http_Error w (Error err) StatusNotFound
               else http_Error w (Error err) StatusServiceUnavailable),
              loggingClient_Error (Error err) wd1)
         | Inr d \<Rightarrow>
             (case deleteDevice env d w wd1 of
                (Some err, w1, wd2) \<Rightarrow> (w1, loggingClient_Error (Error err) wd2)
              | (None, w1, wd2) \<Rightarrow> (Write w1 ''true'', wd2)))"

definition restDeleteDeviceByName ::
  "'s env \<Rightarrow> error + string \<Rightarrow> response \<Rightarrow> 's world \<Rightarrow> response \<times> 's world" where
  "restDeleteDeviceByName env n w wd =
     (case n of
        Inl err \<Rightarrow> (http_Error w (Error err) StatusServiceUnavailable,
                    loggingClient_Error (Error err) wd)
      | Inr name \<Rightarrow>
          (let wd1 = emit (EvGetDeviceByName name) wd
           in case GetDeviceByName (dbClient env) (store wd) name of
                Inl err \<Rightarrow> (http_Error w (Error err) StatusNotFound,
                            loggingClient_Error (Error err) wd1)
              | Inr d \<Rightarrow>
                  (case deleteDevice env d w wd1 of
                     (Some err, w1, wd2) \<Rightarrow> (w1, loggingClient_Error (Error err) wd2)
                   | (None, w1, wd2) \<Rightarrow> (Write (WriteHeader w1 StatusOK) ''true'', wd2))))"

text \<open>
  The store a run of successful report deletions leaves behind: the registry's
  \<open>DeleteDeviceReport\<close> applied to the reports in order.
\<close>

fun storeAfterDeletes :: "'s dbClient \<Rightarrow> deviceReport list \<Rightarrow> 's \<Rightarrow> 's" where
  "storeAfterDeletes db [] s = s"
| "storeAfterDeletes db (r # rs) s = storeAfterDeletes db rs (snd (DeleteDeviceReport db s r))"

text \<open>The calls made for a run of successful report deletions: delete, then notify, per report.\<close>

fun reportCalls :: "deviceReport list \<Rightarrow> event list" where
  "reportCalls [] = []"
| "reportCalls (r # rs) =
     EvDeleteDeviceReport r # EvNotifyDeviceReportAssociates r MethodDelete # reportCalls rs"

subsection \<open>The resolution orders, as the specification words them\<close>

text \<open>
  The resolver of the specification (section 4.1): the lookup by id is attempted first;
  on its failure the lookup by name, whose failure is the resolver's.
  \<open>callsIdThenName\<close> lists the lookups this makes, in order.
\<close>

definition resolveIdThenName ::
  "(string \<Rightarrow> error + 'a) \<Rightarrow> (string \<Rightarrow> error + 'a) \<Rightarrow> string \<Rightarrow> string \<Rightarrow> error + 'a" where
  "resolveIdThenName byId byName idHint nameHint =
     (case byId idHint of Inr x \<Rightarrow> Inr x | Inl _ \<Rightarrow> byName nameHint)"

definition callsIdThenName ::
  "(string \<Rightarrow> event) \<Rightarrow> (string \<Rightarrow> event) \<Rightarrow> (string \<Rightarrow> error + 'a) \<Rightarrow> string \<Rightarrow> string
     \<Rightarrow> event list" where
  "callsIdThenName evId evName byId idHint nameHint =
     (case byId idHint of
        Inr _ \<Rightarrow> [evId idHint]
      | Inl _ \<Rightarrow> [evId idHint, evName nameHint])"

text \<open>
  The opposite order: the lookup by name first; on its failure the lookup by id, whose
  failure is the resolver's.
\<close>

definition resolveNameThenId ::
  "(string \<Rightarrow> error + 'a) \<Rightarrow> (string \<Rightarrow> error + 'a) \<Rightarrow> string \<Rightarrow> string \<Rightarrow> error + 'a" where
  "resolveNameThenId byId byName idHint nameHint =
     (case byName nameHint of Inr x \<Rightarrow> Inr x | Inl _ \<Rightarrow> byId idHint)"

definition callsNameThenId ::
  "(string \<Rightarrow> event) \<Rightarrow> (string \<Rightarrow> event) \<Rightarrow> (string \<Rightarrow> error + 'a) \<Rightarrow> string \<Rightarrow> string
     \<Rightarrow> event list" where
  "callsNameThenId evId evName byName idHint nameHint =
     (case byName nameHint of
        Inr _ \<Rightarrow> [evName nameHint]
      | Inl _ \<Rightarrow> [evName nameHint, evId idHint])"

text \<open>Whether a run of report deletions succeeds, each on the store the previous one left.\<close>

fun deletesSucceed :: "'s dbClient \<Rightarrow> deviceReport list \<Rightarrow> 's \<Rightarrow> bool" where
  "deletesSucceed db [] s = True"
| "deletesSucceed db (r # rs) s =
     (fst (DeleteDeviceReport db s r) = None \<and>
      deletesSucceed db rs (snd (DeleteDeviceReport db s r)))"

subsection \<open>An in-memory registry for concrete runs\<close>

text \<open>
  Modelled from the spec: the registry facade (section 6) as lists of records, with lookups
  by id and by name that tell "not found", a uniqueness constraint on the device name, and
  deletions by identifier. It serves to run the handlers on concrete inputs.
\<close>

record memStore =
  mem_addressables :: "addressable list"
  mem_services :: "deviceService list"
  mem_profiles :: "deviceProfile list"
  mem_devices :: "device list"
  mem_reports :: "deviceReport list"

definition notFound :: error where
  "notFound = MkError ErrNotFound ''not found''"

definition notUnique :: error where
  "notUnique = MkError ErrNotUnique ''resource already exists''"

definition storeDown :: error where
  "storeDown = MkError ErrOther ''no reachable servers''"

definition lookupBy :: "('a \<Rightarrow> string) \<Rightarrow> 'a list \<Rightarrow> string \<Rightarrow> error + 'a" where
  "lookupBy key xs k =
     (case find (\<lambda>x. key x = k) xs of None \<Rightarrow> Inl notFound | Some x \<Rightarrow> Inr x)"

definition memAddDevice :: "memStore \<Rightarrow> device \<Rightarrow> error option \<times> device \<times> memStore" where
  "memAddDevice s d =
     (if find (\<lambda>x. Device_Name x = Device_Name d) (mem_devices s) \<noteq> None
      then (Some notUnique, d, s)
      else (let d' = d\<lparr>Device_Id := ''id-'' @ Device_Name d\<rparr>
            in (None, d', s\<lparr>mem_devices := mem_devices s @ [d']\<rparr>)))"

definition memUpdateDevice :: "memStore \<Rightarrow> device \<Rightarrow> error option \<times> memStore" where
  "memUpdateDevice s d =
     (if find (\<lambda>x. Device_Id x = Device_Id d) (mem_devices s) = None
      then (Some notFound, s)
      else (None, s\<lparr>mem_devices :=
                       map (\<lambda>x. if Device_Id x = Device_Id d then d else x) (mem_devices s)\<rparr>))"

definition memDeleteDevice :: "memStore \<Rightarrow> device \<Rightarrow> error option \<times> memStore" where
  "memDeleteDevice s d =
     (None, s\<lparr>mem_devices := filter (\<lambda>x. Device_Id x \<noteq> Device_Id d) (mem_devices s)\<rparr>)"

definition memDeleteDeviceReport :: "memStore \<Rightarrow> deviceReport \<Rightarrow> error option \<times> memStore" where
  "memDeleteDeviceReport s r =
     (None, s\<lparr>mem_reports := filter (\<lambda>x. Report_Id x \<noteq> Report_Id r) (mem_reports s)\<rparr>)"

definition memDb :: "memStore dbClient" where
  "memDb =
     \<lparr>GetAddressableById = (\<lambda>s. lookupBy Addressable_Id (mem_addressables s)),
      GetAddressableByName = (\<lambda>s. lookupBy Addressable_Name (mem_addressables s)),
      GetDeviceServiceById = (\<lambda>s. lookupBy Service_Id (mem_services s)),
      GetDeviceServiceByName = (\<lambda>s. lookupBy Service_Name (mem_services s)),
      GetDeviceProfileById = (\<lambda>s. lookupBy Profile_Id (mem_profiles s)),
      GetDeviceProfileByName = (\<lambda>s. lookupBy Profile_Name (mem_profiles s)),
      GetDeviceById = (\<lambda>s. lookupBy Device_Id (mem_devices s)),
      GetDeviceByName = (\<lambda>s. lookupBy Device_Name (mem_devices s)),
      GetDeviceReportByDeviceName =
        (\<lambda>s n. Inr (filter (\<lambda>r. Report_Device r = n) (mem_reports s))),
      AddDevice = memAddDevice,
      UpdateDevice = memUpdateDevice,
      DeleteDevice = memDeleteDevice,
      DeleteDeviceReport = memDeleteDeviceReport\<rparr>"

text \<open>Registries with one failing operation.\<close>

definition memDb_updateFails :: "memStore dbClient" where
  "memDb_updateFails = memDb\<lparr>UpdateDevice := (\<lambda>s d. (Some storeDown, s))\<rparr>"

definition memDb_addFails :: "memStore dbClient" where
  "memDb_addFails = memDb\<lparr>AddDevice := (\<lambda>s d. (Some storeDown, d, s))\<rparr>"

definition memDb_reportB_undeletable :: "memStore dbClient" where
  "memDb_reportB_undeletable =
     memDb\<lparr>DeleteDeviceReport :=
              (\<lambda>s r. if Report_Id r = ''rB'' then (Some storeDown, s)
                      else memDeleteDeviceReport s r)\<rparr>"

definition config0 :: configurationStruct where
  "config0 =
     \<lparr>NotificationPostDeviceChanges = False,
      NotificationsSlug = ''device-change-'',
      NotificationContent = ''Device update: '',
      NotificationDescription = ''Metadata device notice'',
      NotificationLabel = ''metadata'',
      NotificationSender = ''core-metadata''\<rparr>"

definition serviceString :: "deviceService \<Rightarrow> string" where
  "serviceString ds = Service_Id ds @ ''|'' @ Service_Name ds @ ''|'' @ Service_AdminState ds"

definition profileString :: "deviceProfile \<Rightarrow> string" where
  "profileString dp = Profile_Id dp @ ''|'' @ Profile_Name dp @ ''|'' @ Profile_Manufacturer dp"

definition callbackRefused :: error where
  "callbackRefused = MkError ErrOther ''connection refused''"

definition memEnv :: "memStore env" where
  "memEnv =
     \<lparr>dbClient = memDb,
      configuration = config0,
      notifyAssociates = (\<lambda>s services ident action t. None),
      time_Now_UnixNano = (\<lambda>evs. 0),
      DeviceService_String = serviceString,
      DeviceProfile_String = profileString\<rparr>"

text \<open>The same environment with an owning service that cannot be called back.\<close>

definition memEnv_callbackFails :: "memStore env" where
  "memEnv_callbackFails =
     memEnv\<lparr>notifyAssociates := (\<lambda>s services ident action t. Some callbackRefused)\<rparr>"

definition addrA :: addressable where
  "addrA = \<lparr>Addressable_Id = ''a1'', Addressable_Name = ''addrA'', Addressable_Address = ''10.0.0.1''\<rparr>"

definition addrB :: addressable where
  "addrB = \<lparr>Addressable_Id = ''b2'', Addressable_Name = ''addrB'', Addressable_Address = ''10.0.0.2''\<rparr>"

definition svc1 :: deviceService where
  "svc1 = \<lparr>Service_Id = ''s1'', Service_Name = ''svc1'', Service_AdminState = ''UNLOCKED''\<rparr>"

definition prof1 :: deviceProfile where
  "prof1 = \<lparr>Profile_Id = ''p1'', Profile_Name = ''prof1'', Profile_Manufacturer = ''acme''\<rparr>"

definition dev1 :: device where
  "dev1 = \<lparr>Device_Id = ''d1'', Device_Name = ''thermostat'', AdminState = ''UNLOCKED'',
     OperatingState = ''ENABLED'', Addressable = addrA, LastConnected = 5, LastReported = 7,
     Labels = Some [''hvac''], Location = Some ''attic'', Service = svc1, Profile = prof1,
     Description = ''first'', Origin = 11\<rparr>"

definition dev2 :: device where
  "dev2 = \<lparr>Device_Id = ''d2'', Device_Name = ''camera'', AdminState = ''LOCKED'',
     OperatingState = ''DISABLED'', Addressable = addrB, LastConnected = 0, LastReported = 0,
     Labels = None, Location = None, Service = svc1, Profile = prof1,
     Description = ''second'', Origin = 13\<rparr>"

definition reportA :: deviceReport where
  "reportA = \<lparr>Report_Id = ''rA'', Report_Name = ''hourly'', Report_Device = ''thermostat''\<rparr>"

definition reportB :: deviceReport where
  "reportB = \<lparr>Report_Id = ''rB'', Report_Name = ''daily'', Report_Device = ''thermostat''\<rparr>"

definition reportC :: deviceReport where
  "reportC = \<lparr>Report_Id = ''rC'', Report_Name = ''weekly'', Report_Device = ''thermostat''\<rparr>"

definition store0 :: memStore where
  "store0 = \<lparr>mem_addressables = [addrA, addrB], mem_services = [svc1], mem_profiles = [prof1],
     mem_devices = [dev1, dev2], mem_reports = [reportA, reportB, reportC]\<rparr>"

definition world0 :: "memStore world" where
  "world0 = \<lparr>store = store0, trace = []\<rparr>"

text \<open>
  A creation candidate whose Addressable carries the id of \<open>addrA\<close> and the name of \<open>addrB\<close>.
\<close>

definition candidate1 :: device where
  "candidate1 = zero_Device\<lparr>Device_Name := ''valve'', AdminState := ''UNLOCKED'',
     OperatingState := ''ENABLED'',
     Addressable := \<lparr>Addressable_Id = ''a1'', Addressable_Name = ''addrB'', Addressable_Address = []\<rparr>,
     Service := \<lparr>Service_Id = [], Service_Name = ''svc1'', Service_AdminState = []\<rparr>,
     Profile := \<lparr>Profile_Id = ''p1'', Profile_Name = [], Profile_Manufacturer = []\<rparr>\<rparr>"

text \<open>A creation candidate with the name of an existing device.\<close>

definition candidate2 :: device where
  "candidate2 = candidate1\<lparr>Device_Name := ''camera''\<rparr>"

text \<open>Update patches.\<close>

definition patchRefs :: device where
  "patchRefs = zero_Device\<lparr>Device_Id := ''d1'',
     Addressable := \<lparr>Addressable_Id = ''a1'', Addressable_Name = ''addrB'', Addressable_Address = []\<rparr>,
     Service := \<lparr>Service_Id = ''zz'', Service_Name = ''svc1'', Service_AdminState = []\<rparr>,
     Profile := \<lparr>Profile_Id = ''zz'', Profile_Name = ''nothing'', Profile_Manufacturer = []\<rparr>\<rparr>"

definition patchName :: device where
  "patchName = zero_Device\<lparr>Device_Name := ''boiler''\<rparr>"

definition patchNameTaken :: device where
  "patchNameTaken = zero_Device\<lparr>Device_Id := ''d1'', Device_Name := ''camera''\<rparr>"

definition patchOwnName :: device where
  "patchOwnName = zero_Device\<lparr>Device_Id := ''d1'', Device_Name := ''thermostat''\<rparr>"

definition patchUnknown :: device where
  "patchUnknown = zero_Device\<lparr>Device_Id := ''d9'', Device_Name := ''ghost''\<rparr>"

text \<open>The device that the creation of \<open>candidate1\<close> stores in \<open>store0\<close>.\<close>

definition createdValve :: device where
  "createdValve = candidate1\<lparr>Device_Id := ''id-valve'', Addressable := addrB, Service := svc1,
     Profile := prof1\<rparr>"

text \<open>A patch that changes the description of the device with id d1.\<close>

definition patchDescription :: device where
  "patchDescription = zero_Device\<lparr>Device_Id := ''d1'', Description := ''updated''\<rparr>"

definition patchByName :: device where
  "patchByName = zero_Device\<lparr>Device_Id := ''d9'', Device_Name := ''camera''\<rparr>"

section \<open>Properties\<close>

subsection \<open>Unfolding the model on concrete inputs\<close>

lemmas concrete_defs =
  memEnv_def memEnv_callbackFails_def memDb_def memDb_updateFails_def memDb_addFails_def
  memDb_reportB_undeletable_def config0_def serviceString_def profileString_def
  lookupBy_def memAddDevice_def memUpdateDevice_def memDeleteDevice_def
  memDeleteDeviceReport_def notFound_def notUnique_def storeDown_def callbackRefused_def
  addrA_def addrB_def svc1_def prof1_def dev1_def dev2_def reportA_def reportB_def reportC_def
  store0_def world0_def candidate1_def candidate2_def patchRefs_def patchName_def
  patchNameTaken_def patchOwnName_def patchUnknown_def
  zero_Device_def zero_Addressable_def zero_DeviceService_def zero_DeviceProfile_def
  emptyResponse_def createdValve_def patchDescription_def patchByName_def


lemmas handler_defs =
  restAddNewDevice_def restAddNewDevice_addressableCheck_def restAddNewDevice_serviceCheck_def
  restAddNewDevice_profileCheck_def restAddNewDevice_add_def
  restUpdateDevice_def restUpdateDevice_merge_def updateDeviceFields_def
  updateDeviceFields_references_def updateDeviceFields_addressable_def
  updateDeviceFields_service_def updateDeviceFields_profile_def
  updateDeviceFields_attributes_def updateDeviceFields_name_def
  notifyDeviceAssociates_def postNotification_def
  restSetDeviceOpStateById_def restSetDeviceOpStateByName_def GetOperatingState_def
  deleteDevice_def deleteAssociatedReportsForDevice_def restDeleteDeviceById_def
  restDeleteDeviceByName_def notifyDeviceReportAssociates_def
  emit_def wrote_def loggingClient_Error_def errors_New_def
  http_Error_def Write_def WriteHeader_def
  StatusOK_def StatusNotFound_def StatusConflict_def StatusServiceUnavailable_def
  MethodPost_def MethodPut_def MethodDelete_def Let_def

subsection \<open>The world: stores and traces\<close>

lemma store_emit: "store (emit e wd) = store wd"
  by (simp add: emit_def)

lemma trace_emit: "trace (emit e wd) = trace wd @ [e]"
  by (simp add: emit_def)

lemma store_log: "store (loggingClient_Error m wd) = store wd"
  by (simp add: loggingClient_Error_def store_emit)

lemma trace_log: "trace (loggingClient_Error m wd) = trace wd @ [EvLogError m]"
  by (simp add: loggingClient_Error_def trace_emit)

lemma store_wrote: "store (wrote e s' wd) = s'"
  by (simp add: wrote_def)

lemma trace_wrote: "trace (wrote e s' wd) = trace wd @ [e]"
  by (simp add: wrote_def trace_emit)

lemma store_notifyReport: "store (notifyDeviceReportAssociates r a wd) = store wd"
  by (simp add: notifyDeviceReportAssociates_def store_emit)

lemma trace_notifyReport:
  "trace (notifyDeviceReportAssociates r a wd) = trace wd @ [EvNotifyDeviceReportAssociates r a]"
  by (simp add: notifyDeviceReportAssociates_def trace_emit)

lemmas world_simps =
  store_emit trace_emit store_log trace_log store_wrote trace_wrote
  store_notifyReport trace_notifyReport

lemma world_eq_iff: "(a :: 's world) = b \<longleftrightarrow> store a = store b \<and> trace a = trace b"
  by auto

subsection \<open>Notifications never write to the registry\<close>

lemma store_postNotification: "store (postNotification env n a wd) = store wd"
  by (simp add: postNotification_def store_emit)

lemma writes_postNotification:
  "filter isRegistryWrite (trace (postNotification env n a wd)) = filter isRegistryWrite (trace wd)"
  by (simp add: postNotification_def trace_emit)

lemma store_notifyDeviceAssociates:
  "store (snd (notifyDeviceAssociates env d a wd)) = store wd"
  by (simp add: notifyDeviceAssociates_def Let_def world_simps store_postNotification
      split: sum.splits option.splits)

lemma writes_notifyDeviceAssociates:
  "filter isRegistryWrite (trace (snd (notifyDeviceAssociates env d a wd))) =
   filter isRegistryWrite (trace wd)"
  by (simp add: notifyDeviceAssociates_def Let_def world_simps writes_postNotification
      split: sum.splits option.splits)

lemma trace_postNotification_prefix: "prefix (trace wd) (trace (postNotification env n a wd))"
  by (simp add: postNotification_def trace_emit)

lemma trace_notifyDeviceAssociates_prefix:
  "prefix (trace wd) (trace (snd (notifyDeviceAssociates env d a wd)))"
proof -
  have "prefix (trace wd) (trace (postNotification env (Device_Name d) a wd) @ evs)" for evs
    using trace_postNotification_prefix [of wd env "Device_Name d" a] by (rule prefix_prefix)
  then show ?thesis
    by (simp add: notifyDeviceAssociates_def Let_def world_simps
        split: sum.splits option.splits)
qed

subsection \<open>The merge reads the registry only\<close>

lemma store_updateDeviceFields_addressable:
  "store (snd (snd (updateDeviceFields_addressable env from to wd))) = store wd"
  by (simp add: updateDeviceFields_addressable_def Let_def world_simps split: sum.splits)

lemma store_updateDeviceFields_service:
  "store (snd (snd (updateDeviceFields_service env from to wd))) = store wd"
  by (simp add: updateDeviceFields_service_def Let_def world_simps split: sum.splits)

lemma store_updateDeviceFields_profile:
  "store (snd (snd (updateDeviceFields_profile env from to wd))) = store wd"
  by (simp add: updateDeviceFields_profile_def Let_def world_simps split: sum.splits)

lemma store_updateDeviceFields_name:
  "store (snd (snd (updateDeviceFields_name env from to wd))) = store wd"
  by (simp add: updateDeviceFields_name_def Let_def world_simps split: sum.splits)

lemma writes_updateDeviceFields_addressable:
  "filter isRegistryWrite (trace (snd (snd (updateDeviceFields_addressable env from to wd)))) =
   filter isRegistryWrite (trace wd)"
  by (simp add: updateDeviceFields_addressable_def Let_def world_simps split: sum.splits)

lemma writes_updateDeviceFields_service:
  "filter isRegistryWrite (trace (snd (snd (updateDeviceFields_service env from to wd)))) =
   filter isRegistryWrite (trace wd)"
  by (simp add: updateDeviceFields_service_def Let_def world_simps split: sum.splits)

lemma writes_updateDeviceFields_profile:
  "filter isRegistryWrite (trace (snd (snd (updateDeviceFields_profile env from to wd)))) =
   filter isRegistryWrite (trace wd)"
  by (simp add: updateDeviceFields_profile_def Let_def world_simps split: sum.splits)

lemma writes_updateDeviceFields_name:
  "filter isRegistryWrite (trace (snd (snd (updateDeviceFields_name env from to wd)))) =
   filter isRegistryWrite (trace wd)"
  by (simp add: updateDeviceFields_name_def Let_def world_simps split: sum.splits)

lemma store_updateDeviceFields_references:
  "store (snd (snd (updateDeviceFields_references env from to wd))) = store wd"
proof -
  obtain e1 t1 w1 where a: "updateDeviceFields_addressable env from to wd = (e1, t1, w1)"
    by (cases "updateDeviceFields_addressable env from to wd") auto
  obtain e2 t2 w2 where b: "updateDeviceFields_service env from t1 w1 = (e2, t2, w2)"
    by (cases "updateDeviceFields_service env from t1 w1") auto
  have 1: "store w1 = store wd"
    using store_updateDeviceFields_addressable [of env "from" to wd] a by simp
  have 2: "store w2 = store w1"
    using store_updateDeviceFields_service [of env "from" t1 w1] b by simp
  show ?thesis
    using a b 1 2 store_updateDeviceFields_profile [of env "from" t2 w2]
    by (simp add: updateDeviceFields_references_def split: option.splits)
qed

lemma writes_updateDeviceFields_references:
  "filter isRegistryWrite (trace (snd (snd (updateDeviceFields_references env from to wd)))) =
   filter isRegistryWrite (trace wd)"
proof -
  obtain e1 t1 w1 where a: "updateDeviceFields_addressable env from to wd = (e1, t1, w1)"
    by (cases "updateDeviceFields_addressable env from to wd") auto
  obtain e2 t2 w2 where b: "updateDeviceFields_service env from t1 w1 = (e2, t2, w2)"
    by (cases "updateDeviceFields_service env from t1 w1") auto
  have 1: "filter isRegistryWrite (trace w1) = filter isRegistryWrite (trace wd)"
    using writes_updateDeviceFields_addressable [of env "from" to wd] a by simp
  have 2: "filter isRegistryWrite (trace w2) = filter isRegistryWrite (trace w1)"
    using writes_updateDeviceFields_service [of env "from" t1 w1] b by simp
  show ?thesis
    using a b 1 2 writes_updateDeviceFields_profile [of env "from" t2 w2]
    by (simp add: updateDeviceFields_references_def split: option.splits)
qed

lemma store_updateDeviceFields:
  "store (snd (snd (updateDeviceFields env from to wd))) = store wd"
proof -
  obtain e t w1 where a: "updateDeviceFields_references env from to wd = (e, t, w1)"
    by (cases "updateDeviceFields_references env from to wd") auto
  have 1: "store w1 = store wd"
    using store_updateDeviceFields_references [of env "from" to wd] a by simp
  show ?thesis
    using a 1 store_updateDeviceFields_name [of env "from" "updateDeviceFields_attributes from t" w1]
    by (simp add: updateDeviceFields_def split: option.splits)
qed

lemma writes_updateDeviceFields:
  "filter isRegistryWrite (trace (snd (snd (updateDeviceFields env from to wd)))) =
   filter isRegistryWrite (trace wd)"
proof -
  obtain e t w1 where a: "updateDeviceFields_references env from to wd = (e, t, w1)"
    by (cases "updateDeviceFields_references env from to wd") auto
  have 1: "filter isRegistryWrite (trace w1) = filter isRegistryWrite (trace wd)"
    using writes_updateDeviceFields_references [of env "from" to wd] a by simp
  show ?thesis
    using a 1 writes_updateDeviceFields_name [of env "from" "updateDeviceFields_attributes from t" w1]
    by (simp add: updateDeviceFields_def split: option.splits)
qed

text \<open>The reference blocks change the three references of the record and nothing else.\<close>

lemma frame_updateDeviceFields_references:
  "updateDeviceFields_references env from to wd = (e, to', wd') \<Longrightarrow>
   \<exists>a ds dp. to' = to\<lparr>Addressable := a, Service := ds, Profile := dp\<rparr>"
proof -
  assume r: "updateDeviceFields_references env from to wd = (e, to', wd')"
  obtain e1 t1 w1 where a: "updateDeviceFields_addressable env from to wd = (e1, t1, w1)"
    by (cases "updateDeviceFields_addressable env from to wd") auto
  obtain e2 t2 w2 where b: "updateDeviceFields_service env from t1 w1 = (e2, t2, w2)"
    by (cases "updateDeviceFields_service env from t1 w1") auto
  obtain e3 t3 w3 where c: "updateDeviceFields_profile env from t2 w2 = (e3, t3, w3)"
    by (cases "updateDeviceFields_profile env from t2 w2") auto
  have 1: "\<exists>x. t1 = to\<lparr>Addressable := x\<rparr>"
  proof -
    have "t1 = to \<or> (\<exists>x. t1 = to\<lparr>Addressable := x\<rparr>)"
      using a by (auto simp: updateDeviceFields_addressable_def Let_def split: sum.splits if_splits)
    moreover have "to = to\<lparr>Addressable := Addressable to\<rparr>" by simp
    ultimately show ?thesis by metis
  qed
  have 2: "\<exists>x. t2 = t1\<lparr>Service := x\<rparr>"
  proof -
    have "t2 = t1 \<or> (\<exists>x. t2 = t1\<lparr>Service := x\<rparr>)"
      using b by (auto simp: updateDeviceFields_service_def Let_def split: sum.splits if_splits)
    moreover have "t1 = t1\<lparr>Service := Service t1\<rparr>" by simp
    ultimately show ?thesis by metis
  qed
  have 3: "\<exists>x. t3 = t2\<lparr>Profile := x\<rparr>"
  proof -
    have "t3 = t2 \<or> (\<exists>x. t3 = t2\<lparr>Profile := x\<rparr>)"
      using c by (auto simp: updateDeviceFields_profile_def Let_def split: sum.splits if_splits)
    moreover have "t2 = t2\<lparr>Profile := Profile t2\<rparr>" by simp
    ultimately show ?thesis by metis
  qed
  from 1 obtain x where x: "t1 = to\<lparr>Addressable := x\<rparr>" by blast
  from 2 obtain y where y: "t2 = t1\<lparr>Service := y\<rparr>" by blast
  from 3 obtain z where z: "t3 = t2\<lparr>Profile := z\<rparr>" by blast
  have "to' = t1 \<or> to' = t2 \<or> to' = t3"
    using r a b c by (auto simp: updateDeviceFields_references_def split: option.splits)
  moreover have "t1 = to\<lparr>Addressable := x, Service := Service to, Profile := Profile to\<rparr>"
    using x by simp
  moreover have "t2 = to\<lparr>Addressable := x, Service := y, Profile := Profile to\<rparr>"
    using x y by simp
  moreover have "t3 = to\<lparr>Addressable := x, Service := y, Profile := z\<rparr>"
    using x y z by simp
  ultimately show ?thesis by metis
qed

subsection \<open>C1: the order of the two lookups of a reference\<close>

text \<open>
  Claim C1, as amended. In the merge of an update (\<^verbatim>\<open>updateDeviceFields\<close>, lines 183-227) a
  non-empty reference (Addressable, Service, Profile) is looked up by id first and by name
  only when the lookup by id failed; when both fail the merge ends with the error that
  names the reference, the record untouched. In the creation
  (\<^verbatim>\<open>restAddNewDevice\<close>, lines 69-106) the order is the opposite: each reference is looked
  up by name first and by id only when the lookup by name failed; when both fail the
  request ends with status 409 and the message that names the reference. In both flows
  the record found replaces the reference and the calls made are exactly the lookups of
  that order.
\<close>

theorem reference_resolution_orders:
  fixes env :: "'s env"
  defines "db \<equiv> dbClient env"
  shows
  "(Addressable from \<noteq> zero_Addressable \<longrightarrow>
      updateDeviceFields_addressable env from to wd =
        (let wd' = wd\<lparr>trace := trace wd @
                     callsIdThenName EvGetAddressableById EvGetAddressableByName
                       (GetAddressableById db (store wd))
                       (Addressable_Id (Addressable from)) (Addressable_Name (Addressable from))\<rparr>
         in case resolveIdThenName (GetAddressableById db (store wd))
                   (GetAddressableByName db (store wd))
                   (Addressable_Id (Addressable from)) (Addressable_Name (Addressable from)) of
              Inr a \<Rightarrow> (None, to\<lparr>Addressable := a\<rparr>, wd')
            | Inl _ \<Rightarrow> (Some (errors_New ''Addressable not found for updated device''), to, wd')))
   \<and> (DeviceService_String env (Service from) \<noteq> DeviceService_String env zero_DeviceService \<longrightarrow>
      updateDeviceFields_service env from to wd =
        (let wd' = wd\<lparr>trace := trace wd @
                     callsIdThenName EvGetDeviceServiceById EvGetDeviceServiceByName
                       (GetDeviceServiceById db (store wd))
                       (Service_Id (Service from)) (Service_Name (Service from))\<rparr>
         in case resolveIdThenName (GetDeviceServiceById db (store wd))
                   (GetDeviceServiceByName db (store wd))
                   (Service_Id (Service from)) (Service_Name (Service from)) of
              Inr ds \<Rightarrow> (None, to\<lparr>Service := ds\<rparr>, wd')
            | Inl _ \<Rightarrow> (Some (errors_New ''Device service not found for updated device''), to, wd')))
   \<and> (DeviceProfile_String env (Profile from) \<noteq> DeviceProfile_String env zero_DeviceProfile \<longrightarrow>
      updateDeviceFields_profile env from to wd =
        (let wd' = wd\<lparr>trace := trace wd @
                     callsIdThenName EvGetDeviceProfileById EvGetDeviceProfileByName
                       (GetDeviceProfileById db (store wd))
                       (Profile_Id (Profile from)) (Profile_Name (Profile from))\<rparr>
         in case resolveIdThenName (GetDeviceProfileById db (store wd))
                   (GetDeviceProfileByName db (store wd))
                   (Profile_Id (Profile from)) (Profile_Name (Profile from)) of
              Inr dp \<Rightarrow> (None, to\<lparr>Profile := dp\<rparr>, wd')
            | Inl _ \<Rightarrow> (Some (errors_New ''Device profile not found for updated device''), to, wd')))
   \<and> restAddNewDevice_addressableCheck env d w wd =
        (let wd' = wd\<lparr>trace := trace wd @
                     callsNameThenId EvGetAddressableById EvGetAddressableByName
                       (GetAddressableByName db (store wd))
                       (Addressable_Id (Addressable d)) (Addressable_Name (Addressable d))\<rparr>
         in case resolveNameThenId (GetAddressableById db (store wd))
                   (GetAddressableByName db (store wd))
                   (Addressable_Id (Addressable d)) (Addressable_Name (Addressable d)) of
              Inr a \<Rightarrow> Inr (d\<lparr>Addressable := a\<rparr>, wd')
            | Inl err \<Rightarrow>
                Inl (http_Error w (Error err @ '': A device must be associated to an Addressable'')
                       StatusConflict,
                     loggingClient_Error (Error err) wd'))
   \<and> restAddNewDevice_serviceCheck env d w wd =
        (let wd' = wd\<lparr>trace := trace wd @
                     callsNameThenId EvGetDeviceServiceById EvGetDeviceServiceByName
                       (GetDeviceServiceByName db (store wd))
                       (Service_Id (Service d)) (Service_Name (Service d))\<rparr>
         in case resolveNameThenId (GetDeviceServiceById db (store wd))
                   (GetDeviceServiceByName db (store wd))
                   (Service_Id (Service d)) (Service_Name (Service d)) of
              Inr ds \<Rightarrow> Inr (d\<lparr>Service := ds\<rparr>, wd')
            | Inl err \<Rightarrow>
                Inl (http_Error w
                       (Error err @ '': A device must be associated with a device service'')
                       StatusConflict,
                     loggingClient_Error (Error err) wd'))
   \<and> restAddNewDevice_profileCheck env d w wd =
        (let wd' = wd\<lparr>trace := trace wd @
                     callsNameThenId EvGetDeviceProfileById EvGetDeviceProfileByName
                       (GetDeviceProfileByName db (store wd))
                       (Profile_Id (Profile d)) (Profile_Name (Profile d))\<rparr>
         in case resolveNameThenId (GetDeviceProfileById db (store wd))
                   (GetDeviceProfileByName db (store wd))
                   (Profile_Id (Profile d)) (Profile_Name (Profile d)) of
              Inr dp \<Rightarrow> Inr (d\<lparr>Profile := dp\<rparr>, wd')
            | Inl err \<Rightarrow>
                Inl (http_Error w
                       (Error err @ '': A device must be associated with a device profile'')
                       StatusConflict,
                     loggingClient_Error (Error err) wd'))"
  unfolding db_def resolveIdThenName_def resolveNameThenId_def callsIdThenName_def
    callsNameThenId_def
  by (intro conjI impI;
      simp add: updateDeviceFields_addressable_def updateDeviceFields_service_def
        updateDeviceFields_profile_def restAddNewDevice_addressableCheck_def
        restAddNewDevice_serviceCheck_def restAddNewDevice_profileCheck_def
        Let_def emit_def loggingClient_Error_def split: sum.splits)

text \<open>
  A concrete run on the in-memory registry: the patch \<open>patchRefs\<close> finds its Addressable
  by id, its service by name after the id failed, and no profile; the candidate
  \<open>candidate1\<close> finds its Addressable and service by name and its profile by id after the
  name failed.
\<close>

theorem reference_resolution_orders_witness:
  "Addressable patchRefs \<noteq> zero_Addressable
   \<and> DeviceService_String memEnv (Service patchRefs) \<noteq> DeviceService_String memEnv zero_DeviceService
   \<and> DeviceProfile_String memEnv (Profile patchRefs) \<noteq> DeviceProfile_String memEnv zero_DeviceProfile
   \<and> updateDeviceFields_addressable memEnv patchRefs dev1 world0 =
       (None, dev1\<lparr>Addressable := addrA\<rparr>, world0\<lparr>trace := [EvGetAddressableById ''a1'']\<rparr>)
   \<and> updateDeviceFields_service memEnv patchRefs dev1 world0 =
       (None, dev1\<lparr>Service := svc1\<rparr>,
        world0\<lparr>trace := [EvGetDeviceServiceById ''zz'', EvGetDeviceServiceByName ''svc1'']\<rparr>)
   \<and> updateDeviceFields_profile memEnv patchRefs dev1 world0 =
       (Some (errors_New ''Device profile not found for updated device''), dev1,
        world0\<lparr>trace := [EvGetDeviceProfileById ''zz'', EvGetDeviceProfileByName ''nothing'']\<rparr>)
   \<and> restAddNewDevice_addressableCheck memEnv candidate1 emptyResponse world0 =
       Inr (candidate1\<lparr>Addressable := addrB\<rparr>,
            world0\<lparr>trace := [EvGetAddressableByName ''addrB'']\<rparr>)
   \<and> restAddNewDevice_serviceCheck memEnv candidate1 emptyResponse world0 =
       Inr (candidate1\<lparr>Service := svc1\<rparr>,
            world0\<lparr>trace := [EvGetDeviceServiceByName ''svc1'']\<rparr>)
   \<and> restAddNewDevice_profileCheck memEnv candidate1 emptyResponse world0 =
       Inr (candidate1\<lparr>Profile := prof1\<rparr>,
            world0\<lparr>trace := [EvGetDeviceProfileByName [], EvGetDeviceProfileById ''p1'']\<rparr>)"
  using reference_resolution_orders
    [where env = memEnv and ?from = patchRefs and to = dev1 and wd = world0
       and d = candidate1 and w = emptyResponse]
  by (simp add: concrete_defs resolveIdThenName_def resolveNameThenId_def
      callsIdThenName_def callsNameThenId_def)


text \<open>
  The claim as first stated fails for the creation. The Addressable of \<open>candidate1\<close>
  carries the id of \<open>addrA\<close> and the name of \<open>addrB\<close>; both exist. The handler looks
  the name up, never the id, and stores the device with \<open>addrB\<close>.
\<close>

theorem creation_looks_up_by_name_first:
  "GetAddressableById (dbClient memEnv) store0 (Addressable_Id (Addressable candidate1)) = Inr addrA
   \<and> addrA \<noteq> addrB
   \<and> restAddNewDevice memEnv (Inr candidate1) emptyResponse world0 =
       (\<lparr>statusCode = Some 200, written = ''id-valve''\<rparr>,
        \<lparr>store = store0\<lparr>mem_devices := [dev1, dev2, createdValve]\<rparr>,
         trace = [EvGetAddressableByName ''addrB'', EvGetDeviceServiceByName ''svc1'',
                  EvGetDeviceProfileByName [], EvGetDeviceProfileById ''p1'',
                  EvAddDevice (candidate1\<lparr>Addressable := addrB, Service := svc1, Profile := prof1\<rparr>),
                  EvGetDeviceServiceById ''s1'',
                  EvNotifyAssociates [svc1] ''id-valve'' ''POST'' DEVICE]\<rparr>)
   \<and> Addressable createdValve = addrB"
  by (simp add: concrete_defs handler_defs)

subsection \<open>C2: a failed associate notification\<close>

text \<open>
  Once the registry's add has succeeded, the creation answers 200 with the new id,
  whatever \<^verbatim>\<open>notifyDeviceAssociates\<close> returns; so does the update once the registry's
  update has succeeded.
\<close>

lemma create_answer_ignores_notify:
  assumes "OperatingState d \<noteq> []" and "AdminState d \<noteq> []"
    and "AddDevice (dbClient env) (store wd) d = (None, d', s')"
  shows "fst (restAddNewDevice_add env d w wd) = Write (WriteHeader w StatusOK) (Device_Id d')"
  using assms by (simp add: restAddNewDevice_add_def split: prod.splits)

lemma update_answer_ignores_notify:
  assumes "updateDeviceFields env rd oldDevice wd = (None, to', wd1)"
    and "UpdateDevice (dbClient env) (store wd1) to' = (None, s')"
  shows "fst (restUpdateDevice_merge env rd oldDevice w wd) =
           Write (WriteHeader w StatusOK) ''true''"
  using assms by (simp add: restUpdateDevice_merge_def split: prod.splits)

text \<open>
  The deletion surfaces a failure of \<^verbatim>\<open>notifyDeviceAssociates\<close> (lines 800-803): the
  error is returned and written with status 503, after the registry's deletion.
\<close>

lemma deleteDevice_notify_failure_surfaced:
  assumes "deleteAssociatedReportsForDevice env d w wd = (None, w1, wd1)"
    and "DeleteDevice (dbClient env) (store wd1) d = (None, s')"
    and "notifyDeviceAssociates env d MethodDelete (wrote (EvDeleteDevice d) s' wd1) = (Some err, wd2)"
  shows "deleteDevice env d w wd =
           (Some err, http_Error w1 (Error err) StatusServiceUnavailable, wd2)
         \<and> store wd2 = s'"
  using assms store_notifyDeviceAssociates [of env d MethodDelete "wrote (EvDeleteDevice d) s' wd1"]
  by (simp add: deleteDevice_def store_wrote)

text \<open>
  Claim C2 on the code, where the owning service cannot be called back
  (\<open>memEnv_callbackFails\<close>): the creation of \<open>candidate1\<close> and the update by
  \<open>patchDescription\<close> both commit their write, log the notifier's error and answer
  200 as on success; the deletion of the device d1 answers 503 with the notifier's error.
\<close>

theorem create_and_update_drop_notify_failure:
  "restAddNewDevice memEnv_callbackFails (Inr candidate1) emptyResponse world0 =
     (\<lparr>statusCode = Some 200, written = ''id-valve''\<rparr>,
      \<lparr>store = store0\<lparr>mem_devices := [dev1, dev2, createdValve]\<rparr>,
       trace = [EvGetAddressableByName ''addrB'', EvGetDeviceServiceByName ''svc1'',
                EvGetDeviceProfileByName [], EvGetDeviceProfileById ''p1'',
                EvAddDevice (candidate1\<lparr>Addressable := addrB, Service := svc1, Profile := prof1\<rparr>),
                EvGetDeviceServiceById ''s1'',
                EvNotifyAssociates [svc1] ''id-valve'' ''POST'' DEVICE,
                EvLogError ''connection refused'']\<rparr>)
   \<and> restUpdateDevice memEnv_callbackFails (Inr patchDescription) emptyResponse world0 =
     (\<lparr>statusCode = Some 200, written = ''true''\<rparr>,
      \<lparr>store = store0\<lparr>mem_devices := [dev1\<lparr>Description := ''updated''\<rparr>, dev2]\<rparr>,
       trace = [EvGetDeviceById ''d1'',
                EvUpdateDevice (dev1\<lparr>Description := ''updated''\<rparr>),
                EvGetDeviceServiceById ''s1'',
                EvNotifyAssociates [svc1] ''d1'' ''PUT'' DEVICE,
                EvLogError ''connection refused'']\<rparr>)
   \<and> fst (restDeleteDeviceById memEnv_callbackFails ''d2'' emptyResponse world0) =
     \<lparr>statusCode = Some 503, written = ''connection refused'' @ [CHR 0x0A]\<rparr>"
  by (simp add: concrete_defs handler_defs)

subsection \<open>C3: the cascade of a deletion\<close>

lemma deleteReports_all:
  "deletesSucceed (dbClient env) rs (store wd) \<Longrightarrow>
   deleteReports env rs w wd =
     (None, w, \<lparr>store = storeAfterDeletes (dbClient env) rs (store wd),
                trace = trace wd @ reportCalls rs\<rparr>)"
proof (induction rs arbitrary: wd)
  case Nil
  then show ?case by simp
next
  case (Cons r rs)
  obtain s' where del: "DeleteDeviceReport (dbClient env) (store wd) r = (None, s')"
    using Cons.prems by (cases "DeleteDeviceReport (dbClient env) (store wd) r") auto
  let ?wd' = "notifyDeviceReportAssociates r MethodDelete (wrote (EvDeleteDeviceReport r) s' wd)"
  have "deletesSucceed (dbClient env) rs (store ?wd')"
    using Cons.prems del by (simp add: world_simps)
  from Cons.IH [OF this] show ?case
    using del by (simp add: world_simps)
qed

lemma deleteReports_fail:
  "deletesSucceed (dbClient env) deleted (store wd) \<Longrightarrow>
   DeleteDeviceReport (dbClient env) (storeAfterDeletes (dbClient env) deleted (store wd)) r
     = (Some err, s') \<Longrightarrow>
   deleteReports env (deleted @ r # rest) w wd =
     (Some err, http_Error w (Error err) StatusServiceUnavailable,
      \<lparr>store = s',
       trace = trace wd @ reportCalls deleted @ [EvDeleteDeviceReport r, EvLogError (Error err)]\<rparr>)"
proof (induction deleted arbitrary: wd)
  case Nil
  then show ?case by (simp add: world_simps world_eq_iff)
next
  case (Cons x xs)
  obtain s1 where del: "DeleteDeviceReport (dbClient env) (store wd) x = (None, s1)"
    using Cons.prems(1) by (cases "DeleteDeviceReport (dbClient env) (store wd) x") auto
  let ?wd' = "notifyDeviceReportAssociates x MethodDelete (wrote (EvDeleteDeviceReport x) s1 wd)"
  have 1: "deletesSucceed (dbClient env) xs (store ?wd')"
    using Cons.prems(1) del by (simp add: world_simps)
  have 2: "DeleteDeviceReport (dbClient env) (storeAfterDeletes (dbClient env) xs (store ?wd')) r
             = (Some err, s')"
    using Cons.prems(2) del by (simp add: world_simps)
  from Cons.IH [OF 1 2] show ?case
    using del by (simp add: world_simps)
qed

lemma first_failed_delete:
  "\<not> deletesSucceed db rs s \<Longrightarrow>
   \<exists>deleted r rest. rs = deleted @ r # rest \<and> deletesSucceed db deleted s \<and>
     fst (DeleteDeviceReport db (storeAfterDeletes db deleted s) r) \<noteq> None"
proof (induction rs arbitrary: s)
  case Nil
  then show ?case by simp
next
  case (Cons x xs)
  show ?case
  proof (cases "fst (DeleteDeviceReport db s x) = None")
    case False
    then have "x # xs = [] @ x # xs \<and> deletesSucceed db [] s \<and>
      fst (DeleteDeviceReport db (storeAfterDeletes db [] s) x) \<noteq> None"
      by simp
    then show ?thesis by blast
  next
    case True
    then have "\<not> deletesSucceed db xs (snd (DeleteDeviceReport db s x))"
      using Cons.prems by simp
    from Cons.IH [OF this] obtain dn r rest where
      a: "xs = dn @ r # rest" and
      b: "deletesSucceed db dn (snd (DeleteDeviceReport db s x))" and
      c: "fst (DeleteDeviceReport db
                 (storeAfterDeletes db dn (snd (DeleteDeviceReport db s x))) r) \<noteq> None"
      by blast
    have "x # xs = (x # dn) @ r # rest \<and> deletesSucceed db (x # dn) s \<and>
      fst (DeleteDeviceReport db (storeAfterDeletes db (x # dn) s) r) \<noteq> None"
      using a b c True by simp
    then show ?thesis by blast
  qed
qed

lemma reportCalls_no_device_delete: "filter isDeleteDevice (reportCalls rs) = []"
  by (induction rs) simp_all

text \<open>
  Claim C3. Let \<open>reports\<close> be the reports the registry lists for the device's name.
  (1) When the reports \<open>deleted\<close> are deleted and the deletion of the next report \<open>r\<close>
  fails, \<^verbatim>\<open>deleteDevice\<close> returns that error and answers 503; the calls made are the
  enumeration, then for each report of \<open>deleted\<close> its deletion followed by its notification,
  then the failed deletion and the log entry, and nothing else: no later report is
  touched and \<open>DeleteDevice\<close> is not called; the store is the one the failed call left
  after the deletions of \<open>deleted\<close>.
  (2) When every deletion succeeds, the calls start with the enumeration, the
  deletion and notification of each report in enumeration order, and then the deletion
  of the device, on the store the report deletions left.
  (3) The device's deletion is called only when every report deletion succeeded.
\<close>

theorem cascade_delete_order:
  fixes env :: "'s env"
  defines "db \<equiv> dbClient env"
  assumes enum: "GetDeviceReportByDeviceName db (store wd) (Device_Name d) = Inr reports"
  shows
  "(reports = deleted @ r # rest \<and> deletesSucceed db deleted (store wd) \<and>
    DeleteDeviceReport db (storeAfterDeletes db deleted (store wd)) r = (Some err, s') \<longrightarrow>
      deleteDevice env d w wd =
        (Some err,
         http_Error (http_Error w (Error err) StatusServiceUnavailable) (Error err)
           StatusServiceUnavailable,
         \<lparr>store = s',
          trace = trace wd @ EvGetDeviceReportByDeviceName (Device_Name d) # reportCalls deleted @
                  [EvDeleteDeviceReport r, EvLogError (Error err)]\<rparr>))
   \<and> (deletesSucceed db reports (store wd) \<longrightarrow>
        prefix (trace wd @ EvGetDeviceReportByDeviceName (Device_Name d) # reportCalls reports @
                [EvDeleteDevice d])
          (trace (snd (snd (deleteDevice env d w wd))))
        \<and> (fst (DeleteDevice db (storeAfterDeletes db reports (store wd)) d) =
            None \<longrightarrow> store (snd (snd (deleteDevice env d w wd))) =
              snd (DeleteDevice db (storeAfterDeletes db reports (store wd)) d)))
   \<and> (filter isDeleteDevice (drop (length (trace wd)) (trace (snd (snd (deleteDevice env d w wd)))))
         \<noteq> [] \<longrightarrow> deletesSucceed db reports (store wd))"
proof -
  let ?wd1 = "emit (EvGetDeviceReportByDeviceName (Device_Name d)) wd"
  have fail: "deleteDevice env d w wd =
        (Some e,
         http_Error (http_Error w (Error e) StatusServiceUnavailable) (Error e)
           StatusServiceUnavailable,
         \<lparr>store = t,
          trace = trace wd @ EvGetDeviceReportByDeviceName (Device_Name d) # reportCalls dn @
                  [EvDeleteDeviceReport x, EvLogError (Error e)]\<rparr>)"
    if "reports = dn @ x # rs" "deletesSucceed db dn (store wd)"
      "DeleteDeviceReport db (storeAfterDeletes db dn (store wd)) x = (Some e, t)"
    for dn x rs e t
  proof -
    have "deleteReports env (dn @ x # rs) w ?wd1 =
      (Some e, http_Error w (Error e) StatusServiceUnavailable,
       \<lparr>store = t,
        trace = trace ?wd1 @ reportCalls dn @ [EvDeleteDeviceReport x, EvLogError (Error e)]\<rparr>)"
      using that(2,3) by (intro deleteReports_fail) (simp_all add: db_def world_simps)
    then show ?thesis
      using enum that(1)
      by (simp add: deleteDevice_def deleteAssociatedReportsForDevice_def db_def world_simps)
  qed
  have ok: "prefix (trace wd @ EvGetDeviceReportByDeviceName (Device_Name d) # reportCalls reports @
                [EvDeleteDevice d])
          (trace (snd (snd (deleteDevice env d w wd))))
        \<and> (fst (DeleteDevice db (storeAfterDeletes db reports (store wd)) d) =
            None \<longrightarrow> store (snd (snd (deleteDevice env d w wd))) =
              snd (DeleteDevice db (storeAfterDeletes db reports (store wd)) d))"
    if all: "deletesSucceed db reports (store wd)"
  proof -
    let ?wd2 = "\<lparr>store = storeAfterDeletes db reports (store wd),
                 trace = trace ?wd1 @ reportCalls reports\<rparr>"
    have loop: "deleteReports env reports w ?wd1 = (None, w, ?wd2)"
      using all deleteReports_all [of env reports ?wd1 w] by (simp add: db_def world_simps)
    obtain e t where dd: "DeleteDevice db (storeAfterDeletes db reports (store wd)) d = (e, t)"
      by (cases "DeleteDevice db (storeAfterDeletes db reports (store wd)) d") auto
    let ?wd3 = "wrote (EvDeleteDevice d) t ?wd2"
    have tr3: "trace ?wd3 = trace wd @ EvGetDeviceReportByDeviceName (Device_Name d) #
                 reportCalls reports @ [EvDeleteDevice d]"
      by (simp add: world_simps)
    show ?thesis
    proof (cases e)
      case (Some err0)
      then show ?thesis
        using enum loop dd tr3
        by (simp add: deleteDevice_def deleteAssociatedReportsForDevice_def db_def)
    next
      case None
      obtain e2 wd4 where n: "notifyDeviceAssociates env d MethodDelete ?wd3 = (e2, wd4)"
        by (cases "notifyDeviceAssociates env d MethodDelete ?wd3") auto
      have p: "prefix (trace ?wd3) (trace wd4)"
        using trace_notifyDeviceAssociates_prefix [of ?wd3 env d MethodDelete] n by simp
      have s: "store wd4 = t"
        using store_notifyDeviceAssociates [of env d MethodDelete ?wd3] n
        by (simp add: world_simps)
      have "snd (snd (deleteDevice env d w wd)) = wd4"
        using enum loop dd None n
        by (simp add: deleteDevice_def deleteAssociatedReportsForDevice_def db_def
            split: option.splits)
      then show ?thesis
        using p s tr3 dd by simp
    qed
  qed
  have only: "deletesSucceed db reports (store wd)"
    if ne: "filter isDeleteDevice
              (drop (length (trace wd)) (trace (snd (snd (deleteDevice env d w wd))))) \<noteq> []"
  proof (rule ccontr)
    assume "\<not> deletesSucceed db reports (store wd)"
    from first_failed_delete [OF this] obtain dn x rs where
      a: "reports = dn @ x # rs" and
      b: "deletesSucceed db dn (store wd)" and
      c: "fst (DeleteDeviceReport db (storeAfterDeletes db dn (store wd)) x) \<noteq> None"
      by blast
    from c obtain e t where
      "DeleteDeviceReport db (storeAfterDeletes db dn (store wd)) x = (Some e, t)"
      by (cases "DeleteDeviceReport db (storeAfterDeletes db dn (store wd)) x") auto
    from fail [OF a b this] have
      "filter isDeleteDevice
         (drop (length (trace wd)) (trace (snd (snd (deleteDevice env d w wd))))) = []"
      by (simp add: reportCalls_no_device_delete)
    with ne show False by simp
  qed
  from fail ok only show ?thesis by blast
qed

text \<open>
  Concrete runs: with a registry that cannot delete \<open>reportB\<close>, the deletion of \<open>dev1\<close>
  removes \<open>reportA\<close>, fails on \<open>reportB\<close> and leaves \<open>reportB\<close>, \<open>reportC\<close> and the
  device in the store; with the plain registry all three reports go, then the device.
\<close>

theorem cascade_delete_order_witness:
  "GetDeviceReportByDeviceName memDb_reportB_undeletable (store world0) (Device_Name dev1) =
     Inr [reportA, reportB, reportC]
   \<and> [reportA, reportB, reportC] = [reportA] @ reportB # [reportC]
   \<and> deletesSucceed memDb_reportB_undeletable [reportA] (store world0)
   \<and> DeleteDeviceReport memDb_reportB_undeletable
        (storeAfterDeletes memDb_reportB_undeletable [reportA] (store world0)) reportB =
        (Some storeDown, store0\<lparr>mem_reports := [reportB, reportC]\<rparr>)
   \<and> deleteDevice (memEnv\<lparr>dbClient := memDb_reportB_undeletable\<rparr>) dev1 emptyResponse world0 =
        (Some storeDown,
         \<lparr>statusCode = Some 503,
          written = ''no reachable servers'' @ [CHR 0x0A] @ ''no reachable servers'' @ [CHR 0x0A]\<rparr>,
         \<lparr>store = store0\<lparr>mem_reports := [reportB, reportC]\<rparr>,
          trace = [EvGetDeviceReportByDeviceName ''thermostat'',
                   EvDeleteDeviceReport reportA,
                   EvNotifyDeviceReportAssociates reportA ''DELETE'',
                   EvDeleteDeviceReport reportB,
                   EvLogError ''no reachable servers'']\<rparr>)
   \<and> GetDeviceReportByDeviceName memDb (store world0) (Device_Name dev1) =
        Inr [reportA, reportB, reportC]
   \<and> deletesSucceed memDb [reportA, reportB, reportC] (store world0)
   \<and> prefix [EvGetDeviceReportByDeviceName ''thermostat'',
              EvDeleteDeviceReport reportA, EvNotifyDeviceReportAssociates reportA ''DELETE'',
              EvDeleteDeviceReport reportB, EvNotifyDeviceReportAssociates reportB ''DELETE'',
              EvDeleteDeviceReport reportC, EvNotifyDeviceReportAssociates reportC ''DELETE'',
              EvDeleteDevice dev1]
        (trace (snd (snd (deleteDevice memEnv dev1 emptyResponse world0))))
   \<and> store (snd (snd (deleteDevice memEnv dev1 emptyResponse world0))) =
        store0\<lparr>mem_devices := [dev2], mem_reports := []\<rparr>
   \<and> filter isDeleteDevice
        (drop (length (trace world0))
           (trace (snd (snd (deleteDevice memEnv dev1 emptyResponse world0))))) \<noteq> []"
proof -
  let ?envB = "memEnv\<lparr>dbClient := memDb_reportB_undeletable\<rparr>"
  have dbB: "dbClient ?envB = memDb_reportB_undeletable" and db: "dbClient memEnv = memDb"
    by (simp_all add: memEnv_def)
  have e1: "GetDeviceReportByDeviceName (dbClient ?envB) (store world0) (Device_Name dev1) =
              Inr [reportA, reportB, reportC]"
    by (simp add: concrete_defs)
  have e2: "GetDeviceReportByDeviceName (dbClient memEnv) (store world0) (Device_Name dev1) =
              Inr [reportA, reportB, reportC]"
    by (simp add: concrete_defs)
  have h1: "[reportA, reportB, reportC] = [reportA] @ reportB # [reportC]"
    by simp
  have h2: "deletesSucceed memDb_reportB_undeletable [reportA] (store world0)"
    by (simp add: concrete_defs)
  have h3: "DeleteDeviceReport memDb_reportB_undeletable
        (storeAfterDeletes memDb_reportB_undeletable [reportA] (store world0)) reportB =
        (Some storeDown, store0\<lparr>mem_reports := [reportB, reportC]\<rparr>)"
    by (simp add: concrete_defs)
  have h4: "deletesSucceed memDb [reportA, reportB, reportC] (store world0)"
    by (simp add: concrete_defs)
  have h5: "filter isDeleteDevice
        (drop (length (trace world0))
           (trace (snd (snd (deleteDevice memEnv dev1 emptyResponse world0))))) \<noteq> []"
    by (simp add: concrete_defs handler_defs)
  have h6: "fst (DeleteDevice memDb (storeAfterDeletes memDb [reportA, reportB, reportC]
              (store world0)) dev1) = None"
    by (simp add: concrete_defs)
  note failing = cascade_delete_order
    [OF e1, where deleted = "[reportA]" and r = reportB and rest = "[reportC]"
       and err = storeDown and s' = "store0\<lparr>mem_reports := [reportB, reportC]\<rparr>"
       and w = emptyResponse, unfolded dbB]
  note succeeding = cascade_delete_order [OF e2, where w = emptyResponse, unfolded db]
  have c1: "deleteDevice ?envB dev1 emptyResponse world0 =
        (Some storeDown,
         http_Error (http_Error emptyResponse (Error storeDown) StatusServiceUnavailable)
           (Error storeDown) StatusServiceUnavailable,
         \<lparr>store = store0\<lparr>mem_reports := [reportB, reportC]\<rparr>,
          trace = trace world0 @ EvGetDeviceReportByDeviceName (Device_Name dev1) #
                  reportCalls [reportA] @
                  [EvDeleteDeviceReport reportB, EvLogError (Error storeDown)]\<rparr>)"
    using failing h1 h2 h3 by blast
  have c2: "prefix (trace world0 @ EvGetDeviceReportByDeviceName (Device_Name dev1) #
              reportCalls [reportA, reportB, reportC] @ [EvDeleteDevice dev1])
          (trace (snd (snd (deleteDevice memEnv dev1 emptyResponse world0))))"
    and c3: "store (snd (snd (deleteDevice memEnv dev1 emptyResponse world0))) =
              snd (DeleteDevice memDb (storeAfterDeletes memDb [reportA, reportB, reportC]
                (store world0)) dev1)"
    using succeeding h4 h6 by blast+
  have v1: "http_Error (http_Error emptyResponse (Error storeDown) StatusServiceUnavailable)
           (Error storeDown) StatusServiceUnavailable =
         \<lparr>statusCode = Some 503,
          written = ''no reachable servers'' @ [CHR 0x0A] @ ''no reachable servers'' @ [CHR 0x0A]\<rparr>"
    by (simp add: http_Error_def Write_def WriteHeader_def StatusServiceUnavailable_def
        emptyResponse_def storeDown_def Let_def)
  have v2: "trace world0 @ EvGetDeviceReportByDeviceName (Device_Name dev1) #
                  reportCalls [reportA] @
                  [EvDeleteDeviceReport reportB, EvLogError (Error storeDown)] =
            [EvGetDeviceReportByDeviceName ''thermostat'',
                   EvDeleteDeviceReport reportA,
                   EvNotifyDeviceReportAssociates reportA ''DELETE'',
                   EvDeleteDeviceReport reportB,
                   EvLogError ''no reachable servers'']"
    by (simp add: world0_def dev1_def storeDown_def MethodDelete_def)
  have v3: "trace world0 @ EvGetDeviceReportByDeviceName (Device_Name dev1) #
              reportCalls [reportA, reportB, reportC] @ [EvDeleteDevice dev1] =
            [EvGetDeviceReportByDeviceName ''thermostat'',
              EvDeleteDeviceReport reportA, EvNotifyDeviceReportAssociates reportA ''DELETE'',
              EvDeleteDeviceReport reportB, EvNotifyDeviceReportAssociates reportB ''DELETE'',
              EvDeleteDeviceReport reportC, EvNotifyDeviceReportAssociates reportC ''DELETE'',
              EvDeleteDevice dev1]"
    by (simp add: world0_def MethodDelete_def) (simp add: dev1_def)
  have v4: "snd (DeleteDevice memDb (storeAfterDeletes memDb [reportA, reportB, reportC]
                (store world0)) dev1) = store0\<lparr>mem_devices := [dev2], mem_reports := []\<rparr>"
    by (simp add: concrete_defs)
  have g1: "GetDeviceReportByDeviceName memDb_reportB_undeletable (store world0) (Device_Name dev1) =
     Inr [reportA, reportB, reportC]"
    using e1 unfolding dbB .
  have g2: "GetDeviceReportByDeviceName memDb (store world0) (Device_Name dev1) =
        Inr [reportA, reportB, reportC]"
    using e2 unfolding db .
  note g3 = c1 [unfolded v1 v2]
  note g4 = c2 [unfolded v3]
  note g5 = c3 [unfolded v4]
  show ?thesis
    by (intro conjI) (rule g1 g2 g3 g4 g5 h1 h2 h3 h4 h5)+
qed

subsection \<open>C4: a patch that carries a name only\<close>

text \<open>
  Claim C4. When every field of the patch other than its name (and its id, which the
  merge never reads into the record) has its zero value, the record the merge leaves is
  the existing record with the name replaced: Addressable, Service, Profile, AdminState,
  Description, Labels, LastConnected, LastReported, Location, OperatingState and Origin
  (and the id) are those of the existing record, whether or not the uniqueness check of
  the name then succeeds.
\<close>

theorem merge_name_only_frame:
  assumes "Addressable from = zero_Addressable"
    and "Service from = zero_DeviceService"
    and "Profile from = zero_DeviceProfile"
    and "AdminState from = []"
    and "Description from = []"
    and "Labels from = None"
    and "LastConnected from = 0"
    and "LastReported from = 0"
    and "Location from = None"
    and "OperatingState from = []"
    and "Origin from = 0"
    and "Device_Name from \<noteq> []"
    and "updateDeviceFields env from to wd = (err, to', wd')"
  shows "to' = to\<lparr>Device_Name := Device_Name from\<rparr>
    \<and> Addressable to' = Addressable to \<and> Service to' = Service to \<and> Profile to' = Profile to
    \<and> AdminState to' = AdminState to \<and> Description to' = Description to
    \<and> Labels to' = Labels to \<and> LastConnected to' = LastConnected to
    \<and> LastReported to' = LastReported to \<and> Location to' = Location to
    \<and> OperatingState to' = OperatingState to \<and> Origin to' = Origin to
    \<and> Device_Id to' = Device_Id to"
proof -
  have refs: "updateDeviceFields_references env from to wd = (None, to, wd)"
    using assms(1-3)
    by (simp add: updateDeviceFields_references_def updateDeviceFields_addressable_def
        updateDeviceFields_service_def updateDeviceFields_profile_def)
  have attrs: "updateDeviceFields_attributes from to = to"
    using assms(4-11) by (simp add: updateDeviceFields_attributes_def)
  have "updateDeviceFields env from to wd = updateDeviceFields_name env from to wd"
    using refs attrs by (simp add: updateDeviceFields_def)
  then have "updateDeviceFields_name env from to wd = (err, to', wd')"
    using assms(13) by simp
  then have "to' = to\<lparr>Device_Name := Device_Name from\<rparr>"
    using assms(12)
    by (auto simp: updateDeviceFields_name_def Let_def split: sum.splits if_splits)
  then show ?thesis by simp
qed

text \<open>
  A concrete run: the patch \<open>patchName\<close> renames \<open>dev1\<close> to boiler and leaves the rest
  of the record as it was.
\<close>

theorem merge_name_only_frame_witness:
  "Addressable patchName = zero_Addressable
   \<and> Service patchName = zero_DeviceService
   \<and> Profile patchName = zero_DeviceProfile
   \<and> AdminState patchName = []
   \<and> Description patchName = []
   \<and> Labels patchName = None
   \<and> LastConnected patchName = 0
   \<and> LastReported patchName = 0
   \<and> Location patchName = None
   \<and> OperatingState patchName = []
   \<and> Origin patchName = 0
   \<and> Device_Name patchName \<noteq> []
   \<and> fst (snd (updateDeviceFields memEnv patchName dev1 world0)) = dev1\<lparr>Device_Name := ''boiler''\<rparr>
   \<and> Addressable (fst (snd (updateDeviceFields memEnv patchName dev1 world0))) = addrA
   \<and> Labels (fst (snd (updateDeviceFields memEnv patchName dev1 world0))) = Some [''hvac'']"
proof -
  have h: "Addressable patchName = zero_Addressable" "Service patchName = zero_DeviceService"
    "Profile patchName = zero_DeviceProfile" "AdminState patchName = []"
    "Description patchName = []" "Labels patchName = None" "LastConnected patchName = 0"
    "LastReported patchName = 0" "Location patchName = None" "OperatingState patchName = []"
    "Origin patchName = 0" "Device_Name patchName \<noteq> []"
    by (simp_all add: patchName_def zero_Device_def)
  have r: "updateDeviceFields memEnv patchName dev1 world0 =
      (fst (updateDeviceFields memEnv patchName dev1 world0),
       fst (snd (updateDeviceFields memEnv patchName dev1 world0)),
       snd (snd (updateDeviceFields memEnv patchName dev1 world0)))"
    by simp
  note c = merge_name_only_frame [OF h r]
  have n: "Device_Name patchName = ''boiler''"
    by (simp add: patchName_def)
  have a: "Addressable dev1 = addrA" and l: "Labels dev1 = Some [''hvac'']"
    by (simp_all add: dev1_def)
  have g1: "fst (snd (updateDeviceFields memEnv patchName dev1 world0)) =
              dev1\<lparr>Device_Name := ''boiler''\<rparr>"
    using c n by simp
  have g2: "Addressable (fst (snd (updateDeviceFields memEnv patchName dev1 world0))) = addrA"
    using c a by simp
  have g3: "Labels (fst (snd (updateDeviceFields memEnv patchName dev1 world0))) = Some [''hvac'']"
    using c l by simp
  show ?thesis
    by (intro conjI) (rule h g1 g2 g3)+
qed

subsection \<open>C5: the uniqueness check of a new name\<close>

text \<open>
  Claim C5. Let the references of the patch merge without error and let the patch carry
  a name. (1) When the registry finds a device of that name whose id differs from the
  existing record's, the merge fails with the error "Duplicate name for Device".
  (2) When the device the registry finds has the id of the existing record (the record
  is renamed to its own name, or keeps it), the merge succeeds.
  (3) When the registry answers "not found", the merge succeeds.
\<close>

theorem merge_name_uniqueness:
  assumes refs: "updateDeviceFields_references env from to wd = (None, to1, wd1)"
    and name: "Device_Name from \<noteq> []"
  shows
  "(GetDeviceByName (dbClient env) (store wd) (Device_Name from) = Inr checkD \<and>
    Device_Id checkD \<noteq> Device_Id to \<longrightarrow>
      fst (updateDeviceFields env from to wd) = Some (errors_New ''Duplicate name for Device''))
   \<and> (GetDeviceByName (dbClient env) (store wd) (Device_Name from) = Inr checkD \<and>
       Device_Id checkD = Device_Id to \<longrightarrow>
      fst (updateDeviceFields env from to wd) = None)
   \<and> (GetDeviceByName (dbClient env) (store wd) (Device_Name from) = Inl e \<and>
       sentinel e = ErrNotFound \<longrightarrow>
      fst (updateDeviceFields env from to wd) = None)"
proof -
  have s: "store wd1 = store wd"
    using store_updateDeviceFields_references [of env "from" to wd] refs by simp
  obtain a ds dp where "to1 = to\<lparr>Addressable := a, Service := ds, Profile := dp\<rparr>"
    using frame_updateDeviceFields_references [OF refs] by blast
  then have "Device_Id to1 = Device_Id to"
    by simp
  then have i: "Device_Id (updateDeviceFields_attributes from to1) = Device_Id to"
    by (simp add: updateDeviceFields_attributes_def Let_def)
  have u: "updateDeviceFields env from to wd =
             updateDeviceFields_name env from (updateDeviceFields_attributes from to1) wd1"
    using refs by (simp add: updateDeviceFields_def)
  show ?thesis
    unfolding u using name s i
    by (simp add: updateDeviceFields_name_def Let_def)
qed

text \<open>
  Concrete runs on \<open>dev1\<close> (id d1, name thermostat): the name camera belongs to the device
  d2, the name thermostat to d1 itself, the name boiler to no device.
\<close>

theorem merge_name_uniqueness_witness:
  "updateDeviceFields_references memEnv patchNameTaken dev1 world0 = (None, dev1, world0)
   \<and> Device_Name patchNameTaken \<noteq> []
   \<and> GetDeviceByName (dbClient memEnv) (store world0) (Device_Name patchNameTaken) = Inr dev2
   \<and> Device_Id dev2 \<noteq> Device_Id dev1
   \<and> fst (updateDeviceFields memEnv patchNameTaken dev1 world0) =
        Some (errors_New ''Duplicate name for Device'')
   \<and> updateDeviceFields_references memEnv patchOwnName dev1 world0 = (None, dev1, world0)
   \<and> Device_Name patchOwnName \<noteq> []
   \<and> GetDeviceByName (dbClient memEnv) (store world0) (Device_Name patchOwnName) = Inr dev1
   \<and> fst (updateDeviceFields memEnv patchOwnName dev1 world0) = None
   \<and> updateDeviceFields_references memEnv patchName dev1 world0 = (None, dev1, world0)
   \<and> Device_Name patchName \<noteq> []
   \<and> GetDeviceByName (dbClient memEnv) (store world0) (Device_Name patchName) = Inl notFound
   \<and> sentinel notFound = ErrNotFound
   \<and> fst (updateDeviceFields memEnv patchName dev1 world0) = None"
proof -
  have r1: "updateDeviceFields_references memEnv patchNameTaken dev1 world0 = (None, dev1, world0)"
    and r2: "updateDeviceFields_references memEnv patchOwnName dev1 world0 = (None, dev1, world0)"
    and r3: "updateDeviceFields_references memEnv patchName dev1 world0 = (None, dev1, world0)"
    by (simp_all add: concrete_defs updateDeviceFields_references_def
        updateDeviceFields_addressable_def updateDeviceFields_service_def
        updateDeviceFields_profile_def)
  have n1: "Device_Name patchNameTaken \<noteq> []" and n2: "Device_Name patchOwnName \<noteq> []"
    and n3: "Device_Name patchName \<noteq> []"
    by (simp_all add: concrete_defs)
  have l1: "GetDeviceByName (dbClient memEnv) (store world0) (Device_Name patchNameTaken) = Inr dev2"
    and l2: "GetDeviceByName (dbClient memEnv) (store world0) (Device_Name patchOwnName) = Inr dev1"
    and l3: "GetDeviceByName (dbClient memEnv) (store world0) (Device_Name patchName) = Inl notFound"
    by (simp_all add: concrete_defs)
  have i1: "Device_Id dev2 \<noteq> Device_Id dev1" and i3: "sentinel notFound = ErrNotFound"
    by (simp_all add: concrete_defs)
  have c1: "fst (updateDeviceFields memEnv patchNameTaken dev1 world0) =
        Some (errors_New ''Duplicate name for Device'')"
    using merge_name_uniqueness [OF r1 n1, of dev2] l1 i1 by blast
  have c2: "fst (updateDeviceFields memEnv patchOwnName dev1 world0) = None"
    using merge_name_uniqueness [OF r2 n2, of dev1] l2 by blast
  have c3: "fst (updateDeviceFields memEnv patchName dev1 world0) = None"
    using merge_name_uniqueness [OF r3 n3, where e = notFound] l3 i3 by blast
  show ?thesis
    by (intro conjI) (rule r1 r2 r3 n1 n2 n3 l1 l2 l3 i1 i3 c1 c2 c3)+
qed

subsection \<open>C6: an operating state that is neither ENABLED nor DISABLED\<close>

text \<open>
  Claim C6. When the requested state is neither ENABLED nor DISABLED, both handlers
  (\<^verbatim>\<open>restSetDeviceOpStateById\<close> and \<^verbatim>\<open>restSetDeviceOpStateByName\<close>) answer with the
  message "Invalid State: ... Must be 'ENABLED' or 'DISABLED'" (HTTP status 503), log it,
  and call the registry not at all: the store is the one before the request, whatever
  the name of the by-name request decodes to.
\<close>

theorem invalid_operating_state_rejected:
  assumes "os \<noteq> ''ENABLED''" and "os \<noteq> ''DISABLED''"
  shows
  "restSetDeviceOpStateById env did os w wd =
     (http_Error w (invalidStateMessage os) StatusServiceUnavailable,
      wd\<lparr>trace := trace wd @ [EvLogError (invalidStateMessage os)]\<rparr>)
   \<and> restSetDeviceOpStateByName env (Inr name) os w wd =
     (http_Error w (invalidStateMessage os) StatusServiceUnavailable,
      wd\<lparr>trace := trace wd @ [EvLogError (invalidStateMessage os)]\<rparr>)
   \<and> store (snd (restSetDeviceOpStateById env did os w wd)) = store wd
   \<and> store (snd (restSetDeviceOpStateByName env n os w wd)) = store wd
   \<and> filter isRegistryWrite (trace (snd (restSetDeviceOpStateByName env n os w wd))) =
       filter isRegistryWrite (trace wd)
   \<and> statusCode (fst (restSetDeviceOpStateByName env n os (w\<lparr>statusCode := None\<rparr>) wd)) =
       Some StatusServiceUnavailable"
proof -
  have g: "GetOperatingState os = ([], False)"
    using assms by (simp add: GetOperatingState_def)
  have a: "restSetDeviceOpStateById env did os w wd =
     (http_Error w (invalidStateMessage os) StatusServiceUnavailable,
      wd\<lparr>trace := trace wd @ [EvLogError (invalidStateMessage os)]\<rparr>)"
    using g by (simp add: restSetDeviceOpStateById_def errors_New_def loggingClient_Error_def
        emit_def)
  have b: "restSetDeviceOpStateByName env (Inr x) os w wd =
     (http_Error w (invalidStateMessage os) StatusServiceUnavailable,
      wd\<lparr>trace := trace wd @ [EvLogError (invalidStateMessage os)]\<rparr>)" for x w
    using g by (simp add: restSetDeviceOpStateByName_def errors_New_def loggingClient_Error_def
        emit_def)
  have c: "restSetDeviceOpStateByName env (Inl e) os w wd =
     (http_Error w (Error e) StatusServiceUnavailable,
      wd\<lparr>trace := trace wd @ [EvLogError (Error e)]\<rparr>)" for e w
    by (simp add: restSetDeviceOpStateByName_def loggingClient_Error_def emit_def)
  have st: "statusCode (http_Error (w\<lparr>statusCode := None\<rparr>) m StatusServiceUnavailable) =
              Some StatusServiceUnavailable" for m
    by (simp add: http_Error_def Write_def WriteHeader_def Let_def)
  have d: "store (snd (restSetDeviceOpStateByName env n os w wd)) = store wd
   \<and> filter isRegistryWrite (trace (snd (restSetDeviceOpStateByName env n os w wd))) =
       filter isRegistryWrite (trace wd)
   \<and> statusCode (fst (restSetDeviceOpStateByName env n os (w\<lparr>statusCode := None\<rparr>) wd)) =
       Some StatusServiceUnavailable"
    by (cases n) (simp_all add: b c st)
  show ?thesis
    using a b [of name w] d by simp
qed

text \<open>A concrete run: the state BROKEN is asked for the device d1 and for thermostat.\<close>

theorem invalid_operating_state_rejected_witness:
  "''BROKEN'' \<noteq> ''ENABLED'' \<and> ''BROKEN'' \<noteq> ''DISABLED''
   \<and> restSetDeviceOpStateById memEnv ''d1'' ''BROKEN'' emptyResponse world0 =
       (\<lparr>statusCode = Some 503,
         written = invalidStateMessage ''BROKEN'' @ [CHR 0x0A]\<rparr>,
        \<lparr>store = store0, trace = [EvLogError (invalidStateMessage ''BROKEN'')]\<rparr>)
   \<and> restSetDeviceOpStateByName memEnv (Inr ''thermostat'') ''BROKEN'' emptyResponse world0 =
       (\<lparr>statusCode = Some 503,
         written = invalidStateMessage ''BROKEN'' @ [CHR 0x0A]\<rparr>,
        \<lparr>store = store0, trace = [EvLogError (invalidStateMessage ''BROKEN'')]\<rparr>)
   \<and> invalidStateMessage ''BROKEN'' =
       ''Invalid State: BROKEN Must be '' @ [CHR 0x27] @ ''ENABLED'' @ [CHR 0x27] @ '' or '' @
       [CHR 0x27] @ ''DISABLED'' @ [CHR 0x27]"
proof -
  have h1: "''BROKEN'' \<noteq> ''ENABLED''" and h2: "''BROKEN'' \<noteq> ''DISABLED''"
    by simp_all
  note c = invalid_operating_state_rejected
    [OF h1 h2, where env = memEnv and did = "''d1''" and w = emptyResponse and wd = world0
       and name = "''thermostat''"]
  have r: "http_Error emptyResponse m StatusServiceUnavailable =
             \<lparr>statusCode = Some 503, written = m @ [CHR 0x0A]\<rparr>" for m
    by (simp add: http_Error_def Write_def WriteHeader_def Let_def emptyResponse_def
        StatusServiceUnavailable_def)
  have t: "world0\<lparr>trace := trace world0 @ [e]\<rparr> = \<lparr>store = store0, trace = [e]\<rparr>" for e
    by (simp add: world0_def)
  have g1: "restSetDeviceOpStateById memEnv ''d1'' ''BROKEN'' emptyResponse world0 =
       (\<lparr>statusCode = Some 503,
         written = invalidStateMessage ''BROKEN'' @ [CHR 0x0A]\<rparr>,
        \<lparr>store = store0, trace = [EvLogError (invalidStateMessage ''BROKEN'')]\<rparr>)"
    using c unfolding r t by blast
  have g2: "restSetDeviceOpStateByName memEnv (Inr ''thermostat'') ''BROKEN'' emptyResponse world0 =
       (\<lparr>statusCode = Some 503,
         written = invalidStateMessage ''BROKEN'' @ [CHR 0x0A]\<rparr>,
        \<lparr>store = store0, trace = [EvLogError (invalidStateMessage ''BROKEN'')]\<rparr>)"
    using c unfolding r t by blast
  have g3: "invalidStateMessage ''BROKEN'' =
       ''Invalid State: BROKEN Must be '' @ [CHR 0x27] @ ''ENABLED'' @ [CHR 0x27] @ '' or '' @
       [CHR 0x27] @ ''DISABLED'' @ [CHR 0x27]"
    by (simp add: invalidStateMessage_def)
  show ?thesis
    by (intro conjI) (rule h1 h2 g1 g2 g3)+
qed

subsection \<open>C7: a failure of the registry's add\<close>

lemma store_restAddNewDevice_addressableCheck:
  "restAddNewDevice_addressableCheck env d w wd = Inr (d1, wd1) \<Longrightarrow>
   store wd1 = store wd \<and> OperatingState d1 = OperatingState d \<and> AdminState d1 = AdminState d
   \<and> filter isRegistryWrite (trace wd1) = filter isRegistryWrite (trace wd)"
  by (auto simp: restAddNewDevice_addressableCheck_def Let_def world_simps split: sum.splits)

lemma store_restAddNewDevice_serviceCheck:
  "restAddNewDevice_serviceCheck env d w wd = Inr (d1, wd1) \<Longrightarrow>
   store wd1 = store wd \<and> OperatingState d1 = OperatingState d \<and> AdminState d1 = AdminState d
   \<and> filter isRegistryWrite (trace wd1) = filter isRegistryWrite (trace wd)"
  by (auto simp: restAddNewDevice_serviceCheck_def Let_def world_simps split: sum.splits)

lemma store_restAddNewDevice_profileCheck:
  "restAddNewDevice_profileCheck env d w wd = Inr (d1, wd1) \<Longrightarrow>
   store wd1 = store wd \<and> OperatingState d1 = OperatingState d \<and> AdminState d1 = AdminState d
   \<and> filter isRegistryWrite (trace wd1) = filter isRegistryWrite (trace wd)"
  by (auto simp: restAddNewDevice_profileCheck_def Let_def world_simps split: sum.splits)

text \<open>
  Claim C7. Let the three references of the candidate resolve (to the completed
  candidate \<open>d3\<close>) and its two states be non-empty, and let the registry's add fail with
  \<open>err\<close>, leaving the store \<open>s'\<close>. When \<open>err\<close> is the uniqueness violation the handler
  answers 409 with "Duplicate name for device"; for any other error it answers 503 with
  the error's message. In both cases the add is the handler's only write and the store
  is the one the rejected add left: the handler persists nothing, and sends no
  notification.
\<close>

theorem add_failure_mapping:
  assumes a: "restAddNewDevice_addressableCheck env d w wd = Inr (d1, wd1)"
    and s: "restAddNewDevice_serviceCheck env d1 w wd1 = Inr (d2, wd2)"
    and p: "restAddNewDevice_profileCheck env d2 w wd2 = Inr (d3, wd3)"
    and os: "OperatingState d \<noteq> []"
    and as: "AdminState d \<noteq> []"
    and add: "AddDevice (dbClient env) (store wd) d3 = (Some err, d', s')"
  shows
  "restAddNewDevice env (Inr d) w wd =
     ((if sentinel err = ErrNotUnique
       then http_Error w ''Duplicate name for device'' StatusConflict
       else http_Error w (Error err) StatusServiceUnavailable),
      wd3\<lparr>store := s', trace := trace wd3 @ [EvAddDevice d3, EvLogError (Error err)]\<rparr>)
   \<and> store (snd (restAddNewDevice env (Inr d) w wd)) = s'
   \<and> filter isRegistryWrite (trace (snd (restAddNewDevice env (Inr d) w wd))) =
       filter isRegistryWrite (trace wd) @ [EvAddDevice d3]"
proof -
  note A = store_restAddNewDevice_addressableCheck [OF a]
  note S = store_restAddNewDevice_serviceCheck [OF s]
  note P = store_restAddNewDevice_profileCheck [OF p]
  have st: "store wd3 = store wd" and o3: "OperatingState d3 \<noteq> []" and a3: "AdminState d3 \<noteq> []"
    and wr: "filter isRegistryWrite (trace wd3) = filter isRegistryWrite (trace wd)"
    using A S P os as by simp_all
  have "restAddNewDevice env (Inr d) w wd = restAddNewDevice_add env d3 w wd3"
    using a s p by (simp add: restAddNewDevice_def)
  also have "\<dots> =
     ((if sentinel err = ErrNotUnique
       then http_Error w ''Duplicate name for device'' StatusConflict
       else http_Error w (Error err) StatusServiceUnavailable),
      wd3\<lparr>store := s', trace := trace wd3 @ [EvAddDevice d3, EvLogError (Error err)]\<rparr>)"
    using o3 a3 add st
    by (simp add: restAddNewDevice_add_def loggingClient_Error_def wrote_def emit_def)
  finally show ?thesis
    using wr by simp
qed

text \<open>
  Concrete runs: \<open>candidate2\<close> bears the name of the device d2, and the registry rejects
  it; the registry \<open>memDb_addFails\<close> rejects \<open>candidate1\<close> for another reason. In both
  runs the store is \<open>store0\<close> afterwards.
\<close>

theorem add_failure_mapping_witness:
  "OperatingState candidate2 \<noteq> [] \<and> AdminState candidate2 \<noteq> []
   \<and> AddDevice (dbClient memEnv) (store world0)
        (candidate2\<lparr>Addressable := addrB, Service := svc1, Profile := prof1\<rparr>) =
        (Some notUnique, candidate2\<lparr>Addressable := addrB, Service := svc1, Profile := prof1\<rparr>,
         store0)
   \<and> sentinel notUnique = ErrNotUnique
   \<and> restAddNewDevice memEnv (Inr candidate2) emptyResponse world0 =
       (\<lparr>statusCode = Some 409, written = ''Duplicate name for device'' @ [CHR 0x0A]\<rparr>,
        \<lparr>store = store0,
         trace = [EvGetAddressableByName ''addrB'', EvGetDeviceServiceByName ''svc1'',
                  EvGetDeviceProfileByName [], EvGetDeviceProfileById ''p1'',
                  EvAddDevice (candidate2\<lparr>Addressable := addrB, Service := svc1, Profile := prof1\<rparr>),
                  EvLogError ''resource already exists'']\<rparr>)
   \<and> OperatingState candidate1 \<noteq> [] \<and> AdminState candidate1 \<noteq> []
   \<and> sentinel storeDown \<noteq> ErrNotUnique
   \<and> fst (restAddNewDevice (memEnv\<lparr>dbClient := memDb_addFails\<rparr>) (Inr candidate1)
            emptyResponse world0) =
       \<lparr>statusCode = Some 503, written = ''no reachable servers'' @ [CHR 0x0A]\<rparr>
   \<and> store (snd (restAddNewDevice (memEnv\<lparr>dbClient := memDb_addFails\<rparr>) (Inr candidate1)
            emptyResponse world0)) = store0"
proof -
  let ?w1 = "world0\<lparr>trace := [EvGetAddressableByName ''addrB'']\<rparr>"
  let ?w2 = "world0\<lparr>trace := [EvGetAddressableByName ''addrB'', EvGetDeviceServiceByName ''svc1'']\<rparr>"
  let ?w3 = "world0\<lparr>trace := [EvGetAddressableByName ''addrB'', EvGetDeviceServiceByName ''svc1'',
                  EvGetDeviceProfileByName [], EvGetDeviceProfileById ''p1'']\<rparr>"
  let ?c1 = "candidate2\<lparr>Addressable := addrB\<rparr>"
  let ?c2 = "candidate2\<lparr>Addressable := addrB, Service := svc1\<rparr>"
  let ?c3 = "candidate2\<lparr>Addressable := addrB, Service := svc1, Profile := prof1\<rparr>"
  let ?e1 = "candidate1\<lparr>Addressable := addrB\<rparr>"
  let ?e2 = "candidate1\<lparr>Addressable := addrB, Service := svc1\<rparr>"
  let ?e3 = "candidate1\<lparr>Addressable := addrB, Service := svc1, Profile := prof1\<rparr>"
  let ?envF = "memEnv\<lparr>dbClient := memDb_addFails\<rparr>"
  have a: "restAddNewDevice_addressableCheck memEnv candidate2 emptyResponse world0 = Inr (?c1, ?w1)"
    by (simp add: concrete_defs restAddNewDevice_addressableCheck_def emit_def)
  have s: "restAddNewDevice_serviceCheck memEnv ?c1 emptyResponse ?w1 = Inr (?c2, ?w2)"
    by (simp add: concrete_defs restAddNewDevice_serviceCheck_def emit_def)
  have p: "restAddNewDevice_profileCheck memEnv ?c2 emptyResponse ?w2 = Inr (?c3, ?w3)"
    by (simp add: concrete_defs restAddNewDevice_profileCheck_def emit_def)
  have os: "OperatingState candidate2 \<noteq> []" and as: "AdminState candidate2 \<noteq> []"
    by (simp_all add: concrete_defs)
  have add: "AddDevice (dbClient memEnv) (store world0) ?c3 = (Some notUnique, ?c3, store0)"
    by (simp add: concrete_defs)
  have k: "sentinel notUnique = ErrNotUnique"
    by (simp add: notUnique_def)
  note c = add_failure_mapping [OF a s p os as add]
  have v: "http_Error emptyResponse ''Duplicate name for device'' StatusConflict =
             \<lparr>statusCode = Some 409, written = ''Duplicate name for device'' @ [CHR 0x0A]\<rparr>"
    by (simp add: http_Error_def Write_def WriteHeader_def Let_def emptyResponse_def
        StatusConflict_def)
  have t: "?w3\<lparr>store := store0, trace := trace ?w3 @ [EvAddDevice ?c3, EvLogError (Error notUnique)]\<rparr>
       = \<lparr>store = store0,
         trace = [EvGetAddressableByName ''addrB'', EvGetDeviceServiceByName ''svc1'',
                  EvGetDeviceProfileByName [], EvGetDeviceProfileById ''p1'',
                  EvAddDevice ?c3, EvLogError ''resource already exists'']\<rparr>"
    by (simp add: world0_def notUnique_def)
  have g1: "restAddNewDevice memEnv (Inr candidate2) emptyResponse world0 =
       (\<lparr>statusCode = Some 409, written = ''Duplicate name for device'' @ [CHR 0x0A]\<rparr>,
        \<lparr>store = store0,
         trace = [EvGetAddressableByName ''addrB'', EvGetDeviceServiceByName ''svc1'',
                  EvGetDeviceProfileByName [], EvGetDeviceProfileById ''p1'',
                  EvAddDevice ?c3, EvLogError ''resource already exists'']\<rparr>)"
    using c k unfolding t by (simp add: v)
  have a': "restAddNewDevice_addressableCheck ?envF candidate1 emptyResponse world0 = Inr (?e1, ?w1)"
    by (simp add: concrete_defs restAddNewDevice_addressableCheck_def emit_def)
  have s': "restAddNewDevice_serviceCheck ?envF ?e1 emptyResponse ?w1 = Inr (?e2, ?w2)"
    by (simp add: concrete_defs restAddNewDevice_serviceCheck_def emit_def)
  have p': "restAddNewDevice_profileCheck ?envF ?e2 emptyResponse ?w2 = Inr (?e3, ?w3)"
    by (simp add: concrete_defs restAddNewDevice_profileCheck_def emit_def)
  have os': "OperatingState candidate1 \<noteq> []" and as': "AdminState candidate1 \<noteq> []"
    by (simp_all add: concrete_defs)
  have add': "AddDevice (dbClient ?envF) (store world0) ?e3 = (Some storeDown, ?e3, store0)"
    by (simp add: concrete_defs)
  have k': "sentinel storeDown \<noteq> ErrNotUnique"
    by (simp add: storeDown_def)
  note c' = add_failure_mapping [OF a' s' p' os' as' add']
  have v': "http_Error emptyResponse (Error storeDown) StatusServiceUnavailable =
             \<lparr>statusCode = Some 503, written = ''no reachable servers'' @ [CHR 0x0A]\<rparr>"
    by (simp add: http_Error_def Write_def WriteHeader_def Let_def emptyResponse_def
        StatusServiceUnavailable_def storeDown_def)
  have g2: "fst (restAddNewDevice ?envF (Inr candidate1) emptyResponse world0) =
       \<lparr>statusCode = Some 503, written = ''no reachable servers'' @ [CHR 0x0A]\<rparr>"
    using c' k' by (simp add: v')
  have g3: "store (snd (restAddNewDevice ?envF (Inr candidate1) emptyResponse world0)) = store0"
    using c' by blast
  show ?thesis
    by (intro conjI) (rule os as add k g1 os' as' k' g2 g3)+
qed

subsection \<open>C8: finding the device to update\<close>

text \<open>
  Claim C8. \<^verbatim>\<open>restUpdateDevice\<close> looks the device up by the id of the patch first.
  (1) When that lookup finds a record, the merge runs on it, the lookup by name not made.
  (2) When it fails and the lookup by the patch's name finds a record, the merge runs
  on that one. (3) When both fail, the handler answers 404 with the error of the second
  lookup; its only calls are the two lookups and the log entry, so nothing is merged or
  persisted and the store is unchanged.
\<close>

theorem update_lookup_id_then_name:
  fixes env :: "'s env"
  defines "db \<equiv> dbClient env"
  shows
  "(GetDeviceById db (store wd) (Device_Id rd) = Inr oldDevice \<longrightarrow>
      restUpdateDevice env (Inr rd) w wd =
        restUpdateDevice_merge env rd oldDevice w
          (wd\<lparr>trace := trace wd @ [EvGetDeviceById (Device_Id rd)]\<rparr>))
   \<and> (GetDeviceById db (store wd) (Device_Id rd) = Inl e1 \<and>
       GetDeviceByName db (store wd) (Device_Name rd) = Inr oldDevice \<longrightarrow>
      restUpdateDevice env (Inr rd) w wd =
        restUpdateDevice_merge env rd oldDevice w
          (wd\<lparr>trace := trace wd @
                  [EvGetDeviceById (Device_Id rd), EvGetDeviceByName (Device_Name rd)]\<rparr>))
   \<and> (GetDeviceById db (store wd) (Device_Id rd) = Inl e1 \<and>
       GetDeviceByName db (store wd) (Device_Name rd) = Inl e2 \<longrightarrow>
      restUpdateDevice env (Inr rd) w wd =
        (http_Error w (Error e2) StatusNotFound,
         wd\<lparr>trace := trace wd @
                 [EvGetDeviceById (Device_Id rd), EvGetDeviceByName (Device_Name rd),
                  EvLogError (Error e2)]\<rparr>))"
proof (intro conjI impI)
  assume "GetDeviceById db (store wd) (Device_Id rd) = Inr oldDevice"
  then show "restUpdateDevice env (Inr rd) w wd =
        restUpdateDevice_merge env rd oldDevice w
          (wd\<lparr>trace := trace wd @ [EvGetDeviceById (Device_Id rd)]\<rparr>)"
    by (simp add: db_def restUpdateDevice_def Let_def emit_def)
next
  assume "GetDeviceById db (store wd) (Device_Id rd) = Inl e1 \<and>
       GetDeviceByName db (store wd) (Device_Name rd) = Inr oldDevice"
  then show "restUpdateDevice env (Inr rd) w wd =
        restUpdateDevice_merge env rd oldDevice w
          (wd\<lparr>trace := trace wd @
                  [EvGetDeviceById (Device_Id rd), EvGetDeviceByName (Device_Name rd)]\<rparr>)"
    by (simp add: db_def restUpdateDevice_def Let_def emit_def)
next
  assume "GetDeviceById db (store wd) (Device_Id rd) = Inl e1 \<and>
       GetDeviceByName db (store wd) (Device_Name rd) = Inl e2"
  then show "restUpdateDevice env (Inr rd) w wd =
        (http_Error w (Error e2) StatusNotFound,
         wd\<lparr>trace := trace wd @
                 [EvGetDeviceById (Device_Id rd), EvGetDeviceByName (Device_Name rd),
                  EvLogError (Error e2)]\<rparr>)"
    by (simp add: db_def restUpdateDevice_def Let_def emit_def loggingClient_Error_def)
qed

text \<open>
  Concrete runs: \<open>patchDescription\<close> carries the id d1; \<open>patchByName\<close> carries an unknown
  id and the name camera; \<open>patchUnknown\<close> carries an unknown id and an unknown name.
\<close>

theorem update_lookup_id_then_name_witness:
  "GetDeviceById (dbClient memEnv) (store world0) (Device_Id patchDescription) = Inr dev1
   \<and> restUpdateDevice memEnv (Inr patchDescription) emptyResponse world0 =
       restUpdateDevice_merge memEnv patchDescription dev1 emptyResponse
         (world0\<lparr>trace := [EvGetDeviceById ''d1'']\<rparr>)
   \<and> GetDeviceById (dbClient memEnv) (store world0) (Device_Id patchByName) = Inl notFound
   \<and> GetDeviceByName (dbClient memEnv) (store world0) (Device_Name patchByName) = Inr dev2
   \<and> restUpdateDevice memEnv (Inr patchByName) emptyResponse world0 =
       restUpdateDevice_merge memEnv patchByName dev2 emptyResponse
         (world0\<lparr>trace := [EvGetDeviceById ''d9'', EvGetDeviceByName ''camera'']\<rparr>)
   \<and> GetDeviceById (dbClient memEnv) (store world0) (Device_Id patchUnknown) = Inl notFound
   \<and> GetDeviceByName (dbClient memEnv) (store world0) (Device_Name patchUnknown) = Inl notFound
   \<and> restUpdateDevice memEnv (Inr patchUnknown) emptyResponse world0 =
       (\<lparr>statusCode = Some 404, written = ''not found'' @ [CHR 0x0A]\<rparr>,
        \<lparr>store = store0,
         trace = [EvGetDeviceById ''d9'', EvGetDeviceByName ''ghost'', EvLogError ''not found'']\<rparr>)"
proof -
  have h1: "GetDeviceById (dbClient memEnv) (store world0) (Device_Id patchDescription) = Inr dev1"
    and h2: "GetDeviceById (dbClient memEnv) (store world0) (Device_Id patchByName) = Inl notFound"
    and h3: "GetDeviceByName (dbClient memEnv) (store world0) (Device_Name patchByName) = Inr dev2"
    and h4: "GetDeviceById (dbClient memEnv) (store world0) (Device_Id patchUnknown) = Inl notFound"
    and h5: "GetDeviceByName (dbClient memEnv) (store world0) (Device_Name patchUnknown) =
               Inl notFound"
    by (simp_all add: concrete_defs)
  have t1: "world0\<lparr>trace := trace world0 @ [EvGetDeviceById (Device_Id patchDescription)]\<rparr> =
            world0\<lparr>trace := [EvGetDeviceById ''d1'']\<rparr>"
    and t2: "world0\<lparr>trace := trace world0 @
               [EvGetDeviceById (Device_Id patchByName), EvGetDeviceByName (Device_Name patchByName)]\<rparr> =
            world0\<lparr>trace := [EvGetDeviceById ''d9'', EvGetDeviceByName ''camera'']\<rparr>"
    and t3: "world0\<lparr>trace := trace world0 @
               [EvGetDeviceById (Device_Id patchUnknown), EvGetDeviceByName (Device_Name patchUnknown),
                EvLogError (Error notFound)]\<rparr> =
            \<lparr>store = store0,
             trace = [EvGetDeviceById ''d9'', EvGetDeviceByName ''ghost'', EvLogError ''not found'']\<rparr>"
    by (simp_all add: world0_def patchDescription_def patchByName_def patchUnknown_def
        zero_Device_def notFound_def)
  have v: "http_Error emptyResponse (Error notFound) StatusNotFound =
             \<lparr>statusCode = Some 404, written = ''not found'' @ [CHR 0x0A]\<rparr>"
    by (simp add: http_Error_def Write_def WriteHeader_def Let_def emptyResponse_def
        StatusNotFound_def notFound_def)
  have g1: "restUpdateDevice memEnv (Inr patchDescription) emptyResponse world0 =
       restUpdateDevice_merge memEnv patchDescription dev1 emptyResponse
         (world0\<lparr>trace := [EvGetDeviceById ''d1'']\<rparr>)"
    using update_lookup_id_then_name
      [where env = memEnv and wd = world0 and rd = patchDescription and oldDevice = dev1
         and w = emptyResponse] h1
    unfolding t1 by blast
  have g2: "restUpdateDevice memEnv (Inr patchByName) emptyResponse world0 =
       restUpdateDevice_merge memEnv patchByName dev2 emptyResponse
         (world0\<lparr>trace := [EvGetDeviceById ''d9'', EvGetDeviceByName ''camera'']\<rparr>)"
    using update_lookup_id_then_name
      [where env = memEnv and wd = world0 and rd = patchByName and oldDevice = dev2
         and w = emptyResponse and ?e1.0 = notFound] h2 h3
    unfolding t2 by blast
  have g3: "restUpdateDevice memEnv (Inr patchUnknown) emptyResponse world0 =
       (\<lparr>statusCode = Some 404, written = ''not found'' @ [CHR 0x0A]\<rparr>,
        \<lparr>store = store0,
         trace = [EvGetDeviceById ''d9'', EvGetDeviceByName ''ghost'', EvLogError ''not found'']\<rparr>)"
    using update_lookup_id_then_name
      [where env = memEnv and wd = world0 and rd = patchUnknown
         and w = emptyResponse and ?e1.0 = notFound and ?e2.0 = notFound] h4 h5
    unfolding t3 v by blast
  show ?thesis
    by (intro conjI) (rule h1 h2 h3 h4 h5 g1 g2 g3)+
qed

subsection \<open>C9: the by-id setter swallows a failed update\<close>

text \<open>
  Claim C9. In \<^verbatim>\<open>restSetDeviceOpStateById\<close>, when the state is valid and the device is
  found, the response is the untouched response writer if the registry's update failed
  and the answer 200 "true" if it succeeded: the error answer of lines 581-585 is never
  produced. After a failed update the only calls made are the lookup and the update:
  nothing is logged and nobody is notified.
\<close>

theorem opstate_by_id_update_failure_swallowed:
  fixes env :: "'s env"
  defines "db \<equiv> dbClient env"
  assumes valid: "GetOperatingState os = (newOs, True)"
    and found: "GetDeviceById db (store wd) did = Inr d0"
  shows
  "fst (restSetDeviceOpStateById env did os w wd) =
     (case fst (UpdateDevice db (store wd) (d0\<lparr>OperatingState := newOs\<rparr>)) of
        Some e \<Rightarrow> w
      | None \<Rightarrow> Write (WriteHeader w StatusOK) ''true'')
   \<and> (UpdateDevice db (store wd) (d0\<lparr>OperatingState := newOs\<rparr>) = (Some err, s') \<longrightarrow>
        restSetDeviceOpStateById env did os w wd =
          (w, \<lparr>store = s',
               trace = trace wd @ [EvGetDeviceById did,
                                   EvUpdateDevice (d0\<lparr>OperatingState := newOs\<rparr>)]\<rparr>))"
proof -
  obtain e t where u: "UpdateDevice (dbClient env) (store wd) (d0\<lparr>OperatingState := newOs\<rparr>) = (e, t)"
    by (cases "UpdateDevice (dbClient env) (store wd) (d0\<lparr>OperatingState := newOs\<rparr>)") auto
  show ?thesis
    using valid found u
    by (cases e)
      (simp_all add: db_def restSetDeviceOpStateById_def Let_def world_simps world_eq_iff
        split: prod.splits)
qed

text \<open>
  A concrete run on a registry whose update fails: the state ENABLED is asked for the
  device d2; the response writer comes back empty.
\<close>

theorem opstate_by_id_update_failure_swallowed_witness:
  "GetOperatingState ''ENABLED'' = (''ENABLED'', True)
   \<and> GetDeviceById memDb_updateFails (store world0) ''d2'' = Inr dev2
   \<and> UpdateDevice memDb_updateFails (store world0) (dev2\<lparr>OperatingState := ''ENABLED''\<rparr>) =
       (Some storeDown, store0)
   \<and> restSetDeviceOpStateById (memEnv\<lparr>dbClient := memDb_updateFails\<rparr>) ''d2'' ''ENABLED''
        emptyResponse world0 =
       (\<lparr>statusCode = None, written = []\<rparr>,
        \<lparr>store = store0,
         trace = [EvGetDeviceById ''d2'', EvUpdateDevice (dev2\<lparr>OperatingState := ''ENABLED''\<rparr>)]\<rparr>)"
proof -
  let ?env = "memEnv\<lparr>dbClient := memDb_updateFails\<rparr>"
  have db: "dbClient ?env = memDb_updateFails"
    by simp
  have h1: "GetOperatingState ''ENABLED'' = (''ENABLED'', True)"
    by (simp add: GetOperatingState_def)
  have h2: "GetDeviceById (dbClient ?env) (store world0) ''d2'' = Inr dev2"
    by (simp add: concrete_defs)
  have h3: "UpdateDevice memDb_updateFails (store world0) (dev2\<lparr>OperatingState := ''ENABLED''\<rparr>) =
       (Some storeDown, store0)"
    by (simp add: concrete_defs)
  note c = opstate_by_id_update_failure_swallowed
    [OF h1 h2, where w = emptyResponse and err = storeDown and s' = store0, unfolded db]
  have g: "restSetDeviceOpStateById ?env ''d2'' ''ENABLED'' emptyResponse world0 =
       (\<lparr>statusCode = None, written = []\<rparr>,
        \<lparr>store = store0,
         trace = [EvGetDeviceById ''d2'', EvUpdateDevice (dev2\<lparr>OperatingState := ''ENABLED''\<rparr>)]\<rparr>)"
    using c h3 by (simp add: emptyResponse_def world0_def)
  show ?thesis
    by (intro conjI) (rule h1 h2 [unfolded db] h3 g)+
qed

subsection \<open>C10: a failed merge is never persisted\<close>

text \<open>
  Claim C10. When \<^verbatim>\<open>updateDeviceFields\<close> returns an error, the handler answers 503 with
  the error's message and logs it; it does not call the registry's update, and the store
  is the one from before the merge.
\<close>

theorem merge_error_no_update:
  assumes "updateDeviceFields env rd oldDevice wd = (Some err, to', wd1)"
  shows
  "restUpdateDevice_merge env rd oldDevice w wd =
     (http_Error w (Error err) StatusServiceUnavailable, loggingClient_Error (Error err) wd1)
   \<and> store (snd (restUpdateDevice_merge env rd oldDevice w wd)) = store wd
   \<and> filter isRegistryWrite (trace (snd (restUpdateDevice_merge env rd oldDevice w wd))) =
       filter isRegistryWrite (trace wd)"
proof -
  have r: "restUpdateDevice_merge env rd oldDevice w wd =
     (http_Error w (Error err) StatusServiceUnavailable, loggingClient_Error (Error err) wd1)"
    using assms by (simp add: restUpdateDevice_merge_def)
  have s: "store wd1 = store wd"
    using store_updateDeviceFields [of env rd oldDevice wd] assms by simp
  have t: "filter isRegistryWrite (trace wd1) = filter isRegistryWrite (trace wd)"
    using writes_updateDeviceFields [of env rd oldDevice wd] assms by simp
  show ?thesis
    using r s t by (simp add: world_simps)
qed

text \<open>
  A concrete run: the patch \<open>patchNameTaken\<close> gives \<open>dev1\<close> the name of the device d2;
  the merge fails and the whole request leaves \<open>store0\<close> as it was.
\<close>

theorem merge_error_no_update_witness:
  "updateDeviceFields memEnv patchNameTaken dev1 (world0\<lparr>trace := [EvGetDeviceById ''d1'']\<rparr>) =
     (Some (errors_New ''Duplicate name for Device''), dev1\<lparr>Device_Name := ''camera''\<rparr>,
      world0\<lparr>trace := [EvGetDeviceById ''d1'', EvGetDeviceByName ''camera'',
                        EvLogError ''Duplicate name for Device'']\<rparr>)
   \<and> restUpdateDevice_merge memEnv patchNameTaken dev1 emptyResponse
        (world0\<lparr>trace := [EvGetDeviceById ''d1'']\<rparr>) =
       (\<lparr>statusCode = Some 503, written = ''Duplicate name for Device'' @ [CHR 0x0A]\<rparr>,
        \<lparr>store = store0,
         trace = [EvGetDeviceById ''d1'', EvGetDeviceByName ''camera'',
                  EvLogError ''Duplicate name for Device'',
                  EvLogError ''Duplicate name for Device'']\<rparr>)
   \<and> store (snd (restUpdateDevice_merge memEnv patchNameTaken dev1 emptyResponse
        (world0\<lparr>trace := [EvGetDeviceById ''d1'']\<rparr>))) = store0"
proof -
  let ?wd = "world0\<lparr>trace := [EvGetDeviceById ''d1'']\<rparr>"
  have h: "updateDeviceFields memEnv patchNameTaken dev1 ?wd =
     (Some (errors_New ''Duplicate name for Device''), dev1\<lparr>Device_Name := ''camera''\<rparr>,
      world0\<lparr>trace := [EvGetDeviceById ''d1'', EvGetDeviceByName ''camera'',
                        EvLogError ''Duplicate name for Device'']\<rparr>)"
    by (simp add: concrete_defs handler_defs)
  note c = merge_error_no_update [OF h, where w = emptyResponse]
  have v: "http_Error emptyResponse (Error (errors_New ''Duplicate name for Device''))
             StatusServiceUnavailable =
           \<lparr>statusCode = Some 503, written = ''Duplicate name for Device'' @ [CHR 0x0A]\<rparr>"
    by (simp add: http_Error_def Write_def WriteHeader_def Let_def emptyResponse_def
        StatusServiceUnavailable_def errors_New_def)
  have t: "loggingClient_Error (Error (errors_New ''Duplicate name for Device''))
             (world0\<lparr>trace := [EvGetDeviceById ''d1'', EvGetDeviceByName ''camera'',
                        EvLogError ''Duplicate name for Device'']\<rparr>) =
           \<lparr>store = store0,
            trace = [EvGetDeviceById ''d1'', EvGetDeviceByName ''camera'',
                  EvLogError ''Duplicate name for Device'',
                  EvLogError ''Duplicate name for Device'']\<rparr>"
    by (simp add: loggingClient_Error_def emit_def errors_New_def world0_def)
  have g1: "restUpdateDevice_merge memEnv patchNameTaken dev1 emptyResponse ?wd =
       (\<lparr>statusCode = Some 503, written = ''Duplicate name for Device'' @ [CHR 0x0A]\<rparr>,
        \<lparr>store = store0,
         trace = [EvGetDeviceById ''d1'', EvGetDeviceByName ''camera'',
                  EvLogError ''Duplicate name for Device'',
                  EvLogError ''Duplicate name for Device'']\<rparr>)"
    using c unfolding v t by blast
  have g2: "store (snd (restUpdateDevice_merge memEnv patchNameTaken dev1 emptyResponse ?wd)) = store0"
    using g1 by simp
  show ?thesis
    by (intro conjI) (rule h g1 g2)+
qed

end
